theory Spec2Isabelle
  imports Main "HOL-Library.Word" "HOL-Library.Code_Target_Numeral"
begin

unbundle bit_operations_syntax

section \<open>Machine integers and byte containers\<close>

type_synonym byte = "8 word"
type_synonym uint8 = "8 word"
type_synonym uint16 = "16 word"
type_synonym uint32 = "32 word"

text \<open>Go's \<open>int32\<close>: the bits of a 32-bit word, read as two's complement through
  \<^const>\<open>sint\<close>; \<open>+\<close> and \<open>-\<close> wrap around as \<open>atomic.AddInt32\<close> does.\<close>

type_synonym int32 = "32 word"

subsection \<open>Varints (encoding/binary and portbase/formats/varint)\<close>

text \<open>
  Modelled from the spec: the Container and its varint helpers live in the portbase
  library, which is not part of the sources. The spec describes a Container as an
  in-memory byte sequence with a cursor, \<open>GetNextN16/32\<close> as consuming a varint of the
  given maximal width and \<open>HoldsData\<close> as "non-empty remaining". A container is
  modelled by the bytes that remain to be read. Varints are the unsigned LEB128
  encoding of Go's \<open>binary.PutUvarint\<close> and \<open>binary.Uvarint\<close>: seven payload bits per
  byte, least significant group first, the high bit set on every byte but the last.
  The accumulator of \<open>Uvarint\<close> is a \<open>uint64\<close>; the guards on the byte index keep it
  from overflowing, so it is a \<open>nat\<close> here.
\<close>

type_synonym container = "byte list"

datatype varint_error = ErrBufTooSmall | ErrVarintOverflow | ErrVarintTooBig nat

function PutUvarint :: "nat \<Rightarrow> byte list" where
  "PutUvarint x =
     (if x \<ge> 0x80 then (word_of_nat x OR 0x80) # PutUvarint (drop_bit 7 x)
      else [word_of_nat x])"
  by pat_completeness auto
termination
  by (relation "measure id") (auto simp: drop_bit_eq_div)

declare PutUvarint.simps [simp del]

text \<open>\<open>Uvarint_loop x s i buf\<close> is the loop of \<open>binary.Uvarint\<close> at byte index \<open>i\<close>
  with accumulator \<open>x\<close> and shift \<open>s\<close>; the result is the value and the number of bytes
  read, \<open>0\<close> when the buffer ends inside the varint and negative on overflow.\<close>

fun Uvarint_loop :: "nat \<Rightarrow> nat \<Rightarrow> nat \<Rightarrow> byte list \<Rightarrow> nat \<times> int" where
  "Uvarint_loop x s i [] = (0, 0)"
| "Uvarint_loop x s i (b # bs) =
     (if i = 10 then (0, - (int i + 1))
      else if b < 0x80 then
        (if i = 9 \<and> b > 1 then (0, - (int i + 1))
         else (x OR push_bit s (unat b), int i + 1))
      else Uvarint_loop (x OR push_bit s (unat (b AND 0x7f))) (s + 7) (i + 1) bs)"

definition Uvarint :: "byte list \<Rightarrow> nat \<times> int" where
  "Uvarint buf = Uvarint_loop 0 0 0 buf"

definition Pack32 :: "uint32 \<Rightarrow> byte list" where
  "Pack32 n = PutUvarint (unat n)"

definition Unpack16 :: "byte list \<Rightarrow> varint_error + (uint16 \<times> nat)" where
  "Unpack16 blob =
     (case Uvarint blob of (n, r) \<Rightarrow>
        if r = 0 then Inl ErrBufTooSmall
        else if r < 0 then Inl ErrVarintOverflow
        else if n > 65535 then Inl (ErrVarintTooBig 65535)
        else Inr (word_of_nat n, nat r))"

definition Unpack32 :: "byte list \<Rightarrow> varint_error + (uint32 \<times> nat)" where
  "Unpack32 blob =
     (case Uvarint blob of (n, r) \<Rightarrow>
        if r = 0 then Inl ErrBufTooSmall
        else if r < 0 then Inl ErrVarintOverflow
        else if n > 4294967295 then Inl (ErrVarintTooBig 4294967295)
        else Inr (word_of_nat n, nat r))"

subsection \<open>Container operations\<close>

definition Prepend :: "byte list \<Rightarrow> container \<Rightarrow> container" where
  "Prepend data c = data @ c"

definition HoldsData :: "container \<Rightarrow> bool" where
  "HoldsData c = (c \<noteq> [])"

text \<open>\<open>GetNextN16\<close> looks at up to three bytes, \<open>GetNextN32\<close> at up to five, and skips
  the bytes of the varint it read. The result carries the container as it is after
  the call.\<close>

definition GetNextN16 :: "container \<Rightarrow> varint_error + (uint16 \<times> container)" where
  "GetNextN16 c =
     (case Unpack16 (take 3 c) of
        Inl e \<Rightarrow> Inl e
      | Inr (num, n) \<Rightarrow> Inr (num, drop n c))"

definition GetNextN32 :: "container \<Rightarrow> varint_error + (uint32 \<times> container)" where
  "GetNextN32 c =
     (case Unpack32 (take 5 c) of
        Inl e \<Rightarrow> Inl e
      | Inr (num, n) \<Rightarrow> Inr (num, drop n c))"

section \<open>Terminal message framing\<close>

type_synonym MsgType = uint8

definition MsgTypeInit :: MsgType where "MsgTypeInit = 1"
definition MsgTypeData :: MsgType where "MsgTypeData = 2"
definition MsgTypeStop :: MsgType where "MsgTypeStop = 3"

definition AddIDType :: "container \<Rightarrow> uint32 \<Rightarrow> MsgType \<Rightarrow> container" where
  "AddIDType c ident msgType = Prepend (Pack32 (ident OR ucast msgType)) c"

text \<open>\<open>ParseIDType\<close> returns the id, the message type and the container behind the
  header; on a varint error it returns the error.\<close>

definition ParseIDType :: "container \<Rightarrow> varint_error + (uint32 \<times> MsgType \<times> container)" where
  "ParseIDType c =
     (case GetNextN32 c of
        Inl err \<Rightarrow> Inl err
      | Inr (idType, c') \<Rightarrow>
          (let msgType = (ucast (idType mod 4) :: MsgType)
           in Inr (idType - ucast msgType, msgType, c')))"

section \<open>The duplex flow queue\<close>

datatype malformed_detail = NoData | FailedToParseReportedSpace varint_error

datatype Error = ErrMalformedData malformed_detail | ErrQueueOverflow | ErrStopping

text \<open>
  The state of a \<open>DuplexFlowQueue\<close> that \<open>Deliver\<close> and \<open>reportableRecvSpace\<close> touch.
  A buffered channel is the list of its buffered elements with its capacity; the
  one-slot signal channels \<open>wakeSender\<close> and \<open>forceSpaceReport\<close> are \<open>True\<close> when a
  signal is buffered.
\<close>

record DuplexFlowQueue =
  sendQueue :: "container list"
  sendSpace :: int32
  wakeSender :: bool
  recvQueue :: "container list"
  queueCap :: nat
  reportedSpace :: int32
  forceSpaceReport :: bool

definition NewDuplexFlowQueue :: "uint32 \<Rightarrow> DuplexFlowQueue" where
  "NewDuplexFlowQueue queueSize =
     \<lparr> sendQueue = [], sendSpace = queueSize, wakeSender = False,
       recvQueue = [], queueCap = unat queueSize, reportedSpace = queueSize,
       forceSpaceReport = False \<rparr>"

text \<open>A non-blocking send (\<open>select\<close> with a \<open>default\<close> branch) on a buffered channel:
  it succeeds exactly when the buffer has a free slot. (A receiver can only be
  blocked on the channel while the buffer is empty, so for a capacity above zero a
  waiting receiver does not change this.)\<close>

definition trySend :: "nat \<Rightarrow> 'a list \<Rightarrow> 'a \<Rightarrow> 'a list option" where
  "trySend capacity q x = (if length q < capacity then Some (q @ [x]) else None)"

text \<open>
  \<open>int32(float32(cap(recvQueue)) * 0.75)\<close>, the value below which a space report is
  forced. \<open>float32\<close> keeps 24 significant bits and rounds to the nearest value, ties to
  the even one: \<open>roundFloat32 n\<close> is the multiple of the unit that a count \<open>n\<close> of
  units (whole numbers, or quarters: any power of two) is rounded to. The capacity is
  rounded when it is converted, the product with 0.75, three quarters of it, is
  rounded again, and the conversion to \<open>int32\<close> drops the fraction. A capacity is below
  \<open>2 ^ 32\<close>, so the exponent range is never left. From a product of \<open>2 ^ 31\<close> on the
  value does not fit \<open>int32\<close> and Go leaves the result to the implementation; the
  definition gives what amd64 gives, the least \<open>int32\<close>.
\<close>

function bitLength :: "nat \<Rightarrow> nat" where
  "bitLength n = (if n = 0 then 0 else Suc (bitLength (n div 2)))"
  by pat_completeness auto
termination
  by (relation "measure id") auto

declare bitLength.simps [simp del]

definition roundFloat32 :: "nat \<Rightarrow> nat" where
  "roundFloat32 n =
     (if bitLength n \<le> 24 then n
      else
        (let e = bitLength n - 24;
             q = n div 2 ^ e;
             r = n mod 2 ^ e;
             half = 2 ^ (e - 1)
         in (if r > half \<or> (r = half \<and> odd q) then q + 1 else q) * 2 ^ e))"

definition forceReportThreshold :: "nat \<Rightarrow> int32" where
  "forceReportThreshold capacity =
     (let quarters = roundFloat32 (3 * roundFloat32 capacity);
          truncated = quarters div 4
      in if truncated < 2 ^ 31 then word_of_nat truncated else 0x80000000)"

definition decrementReportedRecvSpace :: "DuplexFlowQueue \<Rightarrow> bool \<times> DuplexFlowQueue" where
  "decrementReportedRecvSpace dfq =
     (let new = reportedSpace dfq - 1
      in (new <s forceReportThreshold (queueCap dfq), dfq\<lparr>reportedSpace := new\<rparr>))"

definition addToSendSpace :: "DuplexFlowQueue \<Rightarrow> int32 \<Rightarrow> DuplexFlowQueue" where
  "addToSendSpace dfq n = dfq\<lparr>sendSpace := sendSpace dfq + n, wakeSender := True\<rparr>"

definition reportableRecvSpace :: "DuplexFlowQueue \<Rightarrow> int32 \<times> DuplexFlowQueue" where
  "reportableRecvSpace dfq =
     (let toReport =
            (word_of_int (int (queueCap dfq) - int (length (recvQueue dfq))) :: int32)
              - reportedSpace dfq
      in if toReport \<le>s 1 then (0, dfq)
         else (toReport, dfq\<lparr>reportedSpace := reportedSpace dfq + toReport\<rparr>))"

text \<open>\<open>Deliver\<close> takes the container pointer (\<open>None\<close> for \<open>nil\<close>) and returns the error
  (\<open>None\<close> for \<open>nil\<close>) with the state after the call.\<close>

definition Deliver :: "DuplexFlowQueue \<Rightarrow> container option \<Rightarrow> Error option \<times> DuplexFlowQueue" where
  "Deliver dfq cp =
     (case cp of
        None \<Rightarrow> (Some (ErrMalformedData NoData), dfq)
      | Some c \<Rightarrow>
          (case GetNextN16 c of
             Inl err \<Rightarrow> (Some (ErrMalformedData (FailedToParseReportedSpace err)), dfq)
           | Inr (addSpace, c') \<Rightarrow>
               (let dfq1 = (if addSpace > 0 then addToSendSpace dfq (ucast addSpace) else dfq)
                in if \<not> HoldsData c' then (None, dfq1)
                   else (case trySend (queueCap dfq1) (recvQueue dfq1) c' of
                           Some q \<Rightarrow>
                             (case decrementReportedRecvSpace (dfq1\<lparr>recvQueue := q\<rparr>) of
                                (shouldReportRecvSpace, dfq2) \<Rightarrow>
                                  (None,
                                   if shouldReportRecvSpace
                                   then dfq2\<lparr>forceSpaceReport := True\<rparr> else dfq2))
                         | None \<Rightarrow> (Some ErrQueueOverflow, dfq1)))))"

section \<open>The partially-blind token handler\<close>

subsection \<open>Values of the libraries\<close>

text \<open>
  The partially-blind signature scheme (\<open>rot256/pblind\<close>), the serialisation
  (\<open>portbase/formats/dsd\<close>) and the random source are outside the repository. Their
  values are opaque here and their operations are the fields of a parameter record
  \<open>token_env\<close>: every theorem below holds for every implementation of them.
\<close>

type_synonym bytes = "byte list"

datatype lib_error = LibError string

datatype Curve = P256 | P384 | P521
datatype PublicKey = PublicKeyBytes bytes
datatype SecretKey = SecretKeyBytes bytes
datatype Info = CompressedInfo bytes
datatype Signature = SignatureValue bytes
datatype Message1 = Message1 bytes
datatype Message2 = Message2 bytes
datatype Message3 = Message3 bytes
datatype StateSigner = StateSigner bytes
datatype StateRequester = StateRequester bytes

text \<open>A Go pointer that may be \<open>nil\<close> is an \<open>option\<close>. \<open>PBlindToken.Signature\<close> is
  a \<open>*pblind.Signature\<close>, a storage list is a \<open>[]*PBlindToken\<close>, a message batch a
  slice of message pointers.\<close>

record PBlindToken =
  Serial :: int
  Token :: bytes
  Signature :: "Signature option"

text \<open>The package's \<open>Token\<close>: a zone and the packed token data. Its fields and the
  token of a \<open>RequestState\<close> carry a suffix, since \<open>Zone\<close> and \<open>Token\<close> are fields of
  other structs too.\<close>

record Token_t =
  Zone_t :: string
  Data_t :: bytes

record RequestState =
  Token_rs :: bytes
  State :: "StateRequester option"

text \<open>\<open>SignalShouldRequest\<close> is \<open>True\<close> when the callback is installed; what the
  callback does is outside the handler. State-changing library methods return the
  state after the call next to their result.\<close>

record PBlindOptions =
  Zone :: string
  Curve :: Curve
  UseSerials :: bool
  BatchSize :: int
  RandomizeOrder :: bool
  SignalShouldRequest :: bool
  DoubleSpendProtection :: "(bytes \<Rightarrow> lib_error option) option"
  Fallback :: bool

record PBlindHandler =
  opts :: PBlindOptions
  publicKey :: PublicKey
  privateKey :: "SecretKey option"
  Storage :: "PBlindToken option list"
  requestState :: "RequestState list"

record token_env =
  CompressInfo :: "Curve \<Rightarrow> bytes \<Rightarrow> lib_error + Info"
  Check :: "PublicKey \<Rightarrow> Signature \<Rightarrow> Info \<Rightarrow> bytes \<Rightarrow> bool"
  CreateRequester :: "PublicKey \<Rightarrow> Info \<Rightarrow> bytes \<Rightarrow> lib_error + StateRequester"
  ProcessMessage1 :: "StateRequester \<Rightarrow> Message1 \<Rightarrow> lib_error option \<times> StateRequester"
  CreateMessage2 :: "StateRequester \<Rightarrow> (lib_error + Message2) \<times> StateRequester"
  ProcessMessage2 :: "StateSigner \<Rightarrow> Message2 \<Rightarrow> lib_error option \<times> StateSigner"
  CreateMessage3 :: "StateSigner \<Rightarrow> (lib_error + Message3) \<times> StateSigner"
  ProcessMessage3 :: "StateRequester \<Rightarrow> Message3 \<Rightarrow> lib_error option \<times> StateRequester"
  Signature_of :: "StateRequester \<Rightarrow> lib_error + Signature"
  rand_Read :: "nat \<Rightarrow> nat \<Rightarrow> bytes \<times> int \<times> lib_error option"
  rand_Int :: "lib_error + int"
  Shuffle :: "int \<Rightarrow> PBlindToken option list \<Rightarrow> PBlindToken option list"
  dsd_Dump_token :: "PBlindToken option \<Rightarrow> lib_error + bytes"
  dsd_Load_token :: "bytes \<Rightarrow> lib_error + PBlindToken"
  dsd_Dump_storage :: "PBlindToken option list \<Rightarrow> lib_error + bytes"
  dsd_Load_storage :: "bytes \<Rightarrow> lib_error + PBlindToken option list"

subsection \<open>Errors, panics and results\<close>

text \<open>The package's error values and the errors it builds with \<open>fmt.Errorf\<close>.
  \<open>ErrTokenMalformed\<close> wraps its cause: the error of unpacking, the text "invalid
  serial", or the error of \<open>makeInfo\<close>. \<open>ErrAt\<close> is a message about batch entry \<open>#i\<close>
  with its cause, \<open>ErrWrap\<close> a message with its cause. The others wrap nothing:
  \<open>ErrInvalidCount\<close> and \<open>ErrMissingData\<close> complain about a batch's length and about a
  nil slot, \<open>ErrShortRandom\<close> about entry \<open>#i\<close> getting only \<open>n\<close> random bytes,
  \<open>ErrInvalidSignature\<close> about the signature of entry \<open>#i\<close>.\<close>

datatype token_error =
    ErrEmpty
  | ErrTokenInvalid
  | ErrZoneMismatch
  | ErrTokenMalformed token_error
  | ErrTokenUsed lib_error
  | ErrLib lib_error
  | ErrCompressInfo lib_error
  | ErrInvalidCount string nat
  | ErrMissingData string nat
  | ErrShortRandom nat int
  | ErrInvalidSignature nat
  | ErrAt string nat token_error
  | ErrWrap string token_error
  | ErrMsg string

datatype panic = NilDereference | IndexOutOfRange

text \<open>The outcome of a call: a normal return without error, a returned error, or a
  run-time panic that unwinds the call.\<close>

datatype 'a result = Ok 'a | Err token_error | Panicked panic

subsection \<open>Info, storage level, save and load\<close>

definition pblindSecretSize :: nat where
  "pblindSecretSize = 32"

text \<open>\<open>makeInfo\<close>: the zone as a length-prefixed block, followed by the serial as a
  varint of \<open>uint64(serial)\<close> when serials are used, compressed to a curve point.\<close>

definition infoData :: "PBlindHandler \<Rightarrow> int \<Rightarrow> bytes" where
  "infoData pbh serial =
     (let zone = map of_char (Zone (opts pbh)) :: bytes
      in PutUvarint (length zone) @ zone
         @ (if UseSerials (opts pbh) then PutUvarint (nat (serial mod 2 ^ 64)) else []))"

definition makeInfo :: "token_env \<Rightarrow> PBlindHandler \<Rightarrow> int \<Rightarrow> token_error + Info" where
  "makeInfo env pbh serial =
     (case CompressInfo env (Curve (opts pbh)) (infoData pbh serial) of
        Inl err \<Rightarrow> Inl (ErrCompressInfo err)
      | Inr info \<Rightarrow> Inr info)"

text \<open>Go's integer division truncates towards zero.\<close>

definition go_quo :: "int \<Rightarrow> int \<Rightarrow> int" where
  "go_quo a b = sgn a * sgn b * (\<bar>a\<bar> div \<bar>b\<bar>)"

definition shouldRequest :: "PBlindHandler \<Rightarrow> bool" where
  "shouldRequest pbh =
     (length (Storage pbh) = 0 \<or> go_quo (BatchSize (opts pbh)) (int (length (Storage pbh))) > 10)"

definition ShouldRequest :: "PBlindHandler \<Rightarrow> bool" where
  "ShouldRequest pbh = shouldRequest pbh"

text \<open>\<open>GetToken\<close> returns the token or the error, the handler after the call, and
  whether the \<open>SignalShouldRequest\<close> callback was called.\<close>

definition GetToken :: "token_env \<Rightarrow> PBlindHandler \<Rightarrow> Token_t result \<times> PBlindHandler \<times> bool" where
  "GetToken env pbh =
     (case Storage pbh of
        [] \<Rightarrow> (Err ErrEmpty, pbh, False)
      | t # rest \<Rightarrow>
          (case dsd_Dump_token env t of
             Inl err \<Rightarrow> (Err (ErrWrap ''failed to pack token'' (ErrLib err)), pbh, False)
           | Inr data \<Rightarrow>
               (let pbh' = pbh\<lparr>Storage := rest\<rparr>
                in (Ok \<lparr>Zone_t = Zone (opts pbh), Data_t = data\<rparr>, pbh',
                    SignalShouldRequest (opts pbh) \<and> shouldRequest pbh'))))"

definition Save :: "token_env \<Rightarrow> PBlindHandler \<Rightarrow> bytes result" where
  "Save env pbh =
     (if length (Storage pbh) = 0 then Err ErrEmpty
      else (case dsd_Dump_storage env (Storage pbh) of
              Inl err \<Rightarrow> Err (ErrLib err)
            | Inr data \<Rightarrow> Ok data))"

text \<open>The loop of \<open>Load\<close> over the deserialised tokens, in order: it builds the info
  of the token's serial, dereferences the signature and checks it.\<close>

fun Load_check :: "token_env \<Rightarrow> PBlindHandler \<Rightarrow> PBlindToken option list \<Rightarrow> unit result" where
  "Load_check env pbh [] = Ok ()"
| "Load_check env pbh (tp # ts) =
     (case tp of
        None \<Rightarrow> Panicked NilDereference
      | Some t \<Rightarrow>
          (case makeInfo env pbh (Serial t) of
             Inl err \<Rightarrow> Err err
           | Inr info \<Rightarrow>
               (case Signature t of
                  None \<Rightarrow> Panicked NilDereference
                | Some sig \<Rightarrow>
                    if \<not> Check env (publicKey pbh) sig info (Token t) then Err ErrTokenInvalid
                    else Load_check env pbh ts)))"

definition Load :: "token_env \<Rightarrow> PBlindHandler \<Rightarrow> bytes \<Rightarrow> unit result \<times> PBlindHandler" where
  "Load env pbh data =
     (case dsd_Load_storage env data of
        Inl err \<Rightarrow> (Err (ErrLib err), pbh)
      | Inr s \<Rightarrow>
          (case Load_check env pbh s of
             Ok _ \<Rightarrow> (Ok (), pbh\<lparr>Storage := s\<rparr>)
           | Err e \<Rightarrow> (Err e, pbh)
           | Panicked p \<Rightarrow> (Panicked p, pbh)))"

subsection \<open>Verification\<close>

definition Verify :: "token_env \<Rightarrow> PBlindHandler \<Rightarrow> Token_t \<Rightarrow> unit result" where
  "Verify env pbh token =
     (if Zone_t token \<noteq> Zone (opts pbh) then Err ErrZoneMismatch
      else
        (case dsd_Load_token env (Data_t token) of
           Inl err \<Rightarrow> Err (ErrTokenMalformed (ErrLib err))
         | Inr t \<Rightarrow>
             if UseSerials (opts pbh) \<and> Serial t > 0 \<and> Serial t \<le> BatchSize (opts pbh)
                \<or> \<not> UseSerials (opts pbh) \<and> Serial t = 0
             then
               (case makeInfo env pbh (Serial t) of
                  Inl err \<Rightarrow> Err (ErrTokenMalformed err)
                | Inr info \<Rightarrow>
                    (case Signature t of
                       None \<Rightarrow> Panicked NilDereference
                     | Some sig \<Rightarrow>
                         if \<not> Check env (publicKey pbh) sig info (Token t)
                         then Err ErrTokenInvalid
                         else
                           (case DoubleSpendProtection (opts pbh) of
                              None \<Rightarrow> Ok ()
                            | Some protect \<Rightarrow>
                                (case protect (Token t) of
                                   Some err \<Rightarrow> Err (ErrTokenUsed err)
                                 | None \<Rightarrow> Ok ()))))
             else Err (ErrTokenMalformed (ErrMsg ''invalid serial''))))"

subsection \<open>The batch protocol\<close>

text \<open>Reading a slice at an index: \<open>None\<close> stands for the index-out-of-range panic.\<close>

definition at_index :: "'a list \<Rightarrow> nat \<Rightarrow> 'a option" where
  "at_index xs i = (if i < length xs then Some (xs ! i) else None)"

definition emptyRequestState :: RequestState where
  "emptyRequestState = \<lparr>Token_rs = [], State = None\<rparr>"

text \<open>The loop of \<open>CreateTokenRequest\<close> at index \<open>i\<close>, with the request state and the
  request messages built so far. It returns the request state too, since the handler
  keeps what was written before an error. Both slices were made with \<open>BatchSize\<close>
  entries, so the writes at \<open>i\<close> are in range.\<close>

function CreateTokenRequest_loop ::
  "token_env \<Rightarrow> PBlindHandler \<Rightarrow> Message1 option list \<Rightarrow> nat \<Rightarrow> RequestState list
     \<Rightarrow> Message2 option list \<Rightarrow> Message2 option list result \<times> RequestState list" where
  "CreateTokenRequest_loop env pbh msgs i rs out =
     (if int i < BatchSize (opts pbh) then
        (case at_index msgs i of
           None \<Rightarrow> (Panicked IndexOutOfRange, rs)
         | Some None \<Rightarrow> (Err (ErrMissingData ''missing setup data'' i), rs)
         | Some (Some m) \<Rightarrow>
             (case rand_Read env i pblindSecretSize of
                (token, n, Some err) \<Rightarrow>
                  (Err (ErrAt ''failed to get random token'' i (ErrLib err)), rs)
              | (token, n, None) \<Rightarrow>
                  if n \<noteq> int pblindSecretSize
                  then (Err (ErrShortRandom i n), rs)
                  else
                    (let rs1 = rs[i := (rs ! i)\<lparr>Token_rs := token\<rparr>]
                     in case makeInfo env pbh (int i + 1) of
                          Inl err \<Rightarrow> (Err (ErrAt ''failed to make token info'' i err), rs1)
                        | Inr info \<Rightarrow>
                            (case CreateRequester env (publicKey pbh) info token of
                               Inl err \<Rightarrow>
                                 (Err (ErrAt ''failed to create request state'' i (ErrLib err)), rs1)
                             | Inr requester \<Rightarrow>
                                 (case ProcessMessage1 env requester m of
                                    (Some err, requester1) \<Rightarrow>
                                      (Err (ErrAt ''failed to process setup message'' i (ErrLib err)),
                                       rs1[i := (rs1 ! i)\<lparr>State := Some requester1\<rparr>])
                                  | (None, requester1) \<Rightarrow>
                                      (case CreateMessage2 env requester1 of
                                         (Inl err, requester2) \<Rightarrow>
                                           (Err (ErrAt ''failed to create request message'' i (ErrLib err)),
                                            rs1[i := (rs1 ! i)\<lparr>State := Some requester2\<rparr>])
                                       | (Inr requestMsg, requester2) \<Rightarrow>
                                           CreateTokenRequest_loop env pbh msgs (i + 1)
                                             (rs1[i := (rs1 ! i)\<lparr>State := Some requester2\<rparr>])
                                             (out[i := Some requestMsg])))))))
      else (Ok out, rs))"
  by pat_completeness auto
termination
  by (relation "measure (\<lambda>(env, pbh, msgs, i, rs, out). nat (BatchSize (opts pbh)) - i)") auto

declare CreateTokenRequest_loop.simps [simp del]

definition CreateTokenRequest ::
  "token_env \<Rightarrow> PBlindHandler \<Rightarrow> Message1 option list
     \<Rightarrow> Message2 option list result \<times> PBlindHandler" where
  "CreateTokenRequest env pbh requestSetup =
     (if int (length requestSetup) \<noteq> BatchSize (opts pbh)
      then (Err (ErrInvalidCount ''invalid request setup msg count'' (length requestSetup)), pbh)
      else
        (let n = nat (BatchSize (opts pbh))
         in case CreateTokenRequest_loop env pbh requestSetup 0
                   (replicate n emptyRequestState) (replicate n None) of
              (r, rs) \<Rightarrow> (r, pbh\<lparr>requestState := rs\<rparr>)))"

text \<open>\<open>IssueTokens\<close> reads the handler's options only. The signer states are created
  by \<open>CreateSetup\<close>, which fills the unexported slice with non-nil signers.\<close>

function IssueTokens_loop ::
  "token_env \<Rightarrow> PBlindHandler \<Rightarrow> StateSigner list \<Rightarrow> Message2 option list \<Rightarrow> nat
     \<Rightarrow> Message3 option list \<Rightarrow> Message3 option list result" where
  "IssueTokens_loop env pbh signers msgs i out =
     (if int i < BatchSize (opts pbh) then
        (case at_index msgs i of
           None \<Rightarrow> Panicked IndexOutOfRange
         | Some None \<Rightarrow> Err (ErrMissingData ''missing request data'' i)
         | Some (Some m) \<Rightarrow>
             (case at_index signers i of
                None \<Rightarrow> Panicked IndexOutOfRange
              | Some signer \<Rightarrow>
                  (case ProcessMessage2 env signer m of
                     (Some err, signer1) \<Rightarrow>
                       Err (ErrAt ''failed to process request msg'' i (ErrLib err))
                   | (None, signer1) \<Rightarrow>
                       (case CreateMessage3 env signer1 of
                          (Inl err, signer2) \<Rightarrow> Err (ErrAt ''failed to issue token'' i (ErrLib err))
                        | (Inr responseMsg, signer2) \<Rightarrow>
                            IssueTokens_loop env pbh signers msgs (i + 1)
                              (out[i := Some responseMsg])))))
      else Ok out)"
  by pat_completeness auto
termination
  by (relation "measure (\<lambda>(env, pbh, signers, msgs, i, out). nat (BatchSize (opts pbh)) - i)") auto

declare IssueTokens_loop.simps [simp del]

definition IssueTokens ::
  "token_env \<Rightarrow> PBlindHandler \<Rightarrow> StateSigner list \<Rightarrow> Message2 option list
     \<Rightarrow> Message3 option list result" where
  "IssueTokens env pbh signers request =
     (if int (length request) \<noteq> BatchSize (opts pbh)
      then Err (ErrInvalidCount ''invalid request msg count'' (length request))
      else if int (length signers) \<noteq> BatchSize (opts pbh)
      then Err (ErrInvalidCount ''invalid request state count'' (length request))
      else IssueTokens_loop env pbh signers request 0
             (replicate (nat (BatchSize (opts pbh))) None))"

text \<open>The loop of \<open>ProcessIssuedTokens\<close>. The call
  \<open>pbh.requestState[i].State.ProcessMessage3(*issuedTokens.Msgs[i])\<close> indexes the
  request state, dereferences the message pointer and then enters the method on the
  requester state. The requester state is changed through its pointer only; the
  deferred reset discards it on every way out, so the loop does not return it.\<close>

function ProcessIssuedTokens_loop ::
  "token_env \<Rightarrow> PBlindHandler \<Rightarrow> Message3 option list \<Rightarrow> nat
     \<Rightarrow> PBlindToken option list \<Rightarrow> PBlindToken option list result" where
  "ProcessIssuedTokens_loop env pbh msgs i finalizedTokens =
     (if int i < BatchSize (opts pbh) then
        (case at_index (requestState pbh) i of
           None \<Rightarrow> Panicked IndexOutOfRange
         | Some rs \<Rightarrow>
             (case at_index msgs i of
                None \<Rightarrow> Panicked IndexOutOfRange
              | Some None \<Rightarrow> Panicked NilDereference
              | Some (Some m) \<Rightarrow>
                  (case State rs of
                     None \<Rightarrow> Panicked NilDereference
                   | Some st \<Rightarrow>
                       (case ProcessMessage3 env st m of
                          (Some err, st1) \<Rightarrow>
                            Err (ErrAt ''failed to create final signature'' i (ErrLib err))
                        | (None, st1) \<Rightarrow>
                            (case Signature_of env st1 of
                               Inl err \<Rightarrow>
                                 Err (ErrAt ''failed to create final signature'' i (ErrLib err))
                             | Inr signature \<Rightarrow>
                                 (case makeInfo env pbh (int i + 1) of
                                    Inl err \<Rightarrow> Err (ErrAt ''failed to make token info'' i err)
                                  | Inr info \<Rightarrow>
                                      if \<not> Check env (publicKey pbh) signature info (Token_rs rs)
                                      then Err (ErrInvalidSignature i)
                                      else ProcessIssuedTokens_loop env pbh msgs (i + 1)
                                             (finalizedTokens[i := Some
                                                \<lparr>Serial = (if UseSerials (opts pbh) then int i + 1 else 0),
                                                 Token = Token_rs rs,
                                                 Signature = Some signature\<rparr>])))))))
      else Ok finalizedTokens)"
  by pat_completeness auto
termination
  by (relation "measure (\<lambda>(env, pbh, msgs, i, fin). nat (BatchSize (opts pbh)) - i)") auto

declare ProcessIssuedTokens_loop.simps [simp del]

definition ProcessIssuedTokens ::
  "token_env \<Rightarrow> PBlindHandler \<Rightarrow> Message3 option list \<Rightarrow> unit result \<times> PBlindHandler" where
  "ProcessIssuedTokens env pbh issuedTokens =
     (if int (length issuedTokens) \<noteq> BatchSize (opts pbh)
      then (Err (ErrInvalidCount ''invalid issued token count'' (length issuedTokens)), pbh)
      else
        (let n = nat (BatchSize (opts pbh));
             reset = pbh\<lparr>requestState := replicate n emptyRequestState\<rparr>
         in case ProcessIssuedTokens_loop env pbh issuedTokens 0 (replicate n None) of
              Err e \<Rightarrow> (Err e, reset)
            | Panicked p \<Rightarrow> (Panicked p, reset)
            | Ok finalizedTokens \<Rightarrow>
                if RandomizeOrder (opts pbh) then
                  (case rand_Int env of
                     Inl err \<Rightarrow> (Err (ErrWrap ''failed to get seed for shuffle'' (ErrLib err)), reset)
                   | Inr seed \<Rightarrow>
                       (Ok (), reset\<lparr>Storage := Storage pbh @ Shuffle env seed finalizedTokens\<rparr>))
                else (Ok (), reset\<lparr>Storage := Storage pbh @ finalizedTokens\<rparr>)))"

section \<open>Bootstrap hubs\<close>

text \<open>
  \<open>ParseBootstrapHub\<close> is in the sources. It calls \<open>ParseTransport\<close> and
  \<open>Transport.String\<close> of the hub package, which are not, \<open>lhash.FromBase58\<close> of the jess
  library and \<open>net.ParseIP\<close> with \<open>IP.To4\<close> of Go's standard library. A labeled hash and
  an IP address are their bytes. What neither the sources nor the spec fix is a field
  of the parameter record \<open>hub_env\<close>: the base58 decoder of labeled hashes, the IPv6
  parser, the port of a transport written without one, and whether the Go release
  accepts address components with leading zeros (releases before 1.17 do).
\<close>

record Transport =
  Protocol :: string
  Domain :: string
  Port :: uint16
  Path :: string
  Option :: string

datatype LabeledHash = LabeledHash bytes

type_synonym IP = bytes

record hub_env =
  FromBase58 :: "string \<Rightarrow> lib_error + LabeledHash"
  parseIPv6 :: "string \<Rightarrow> IP option"
  defaultPort :: "string \<Rightarrow> uint16 option"
  leadingZeros :: bool

subsection \<open>Transports\<close>

definition isDigit :: "char \<Rightarrow> bool" where
  "isDigit c = (48 \<le> (of_char c :: nat) \<and> (of_char c :: nat) \<le> 57)"

definition digitVal :: "char \<Rightarrow> nat" where
  "digitVal c = of_char c - 48"

definition decimalValue :: "string \<Rightarrow> nat" where
  "decimalValue s = foldl (\<lambda>n c. n * 10 + digitVal c) 0 s"

function decimal :: "nat \<Rightarrow> string" where
  "decimal n =
     (if n < 10 then [''0123456789'' ! n]
      else decimal (n div 10) @ [''0123456789'' ! (n mod 10)])"
  by pat_completeness auto
termination
  by (relation "measure id") auto

declare decimal.simps [simp del]

definition parsePort :: "hub_env \<Rightarrow> string \<Rightarrow> string \<Rightarrow> uint16 option" where
  "parsePort env protocol portData =
     (if portData = [] then defaultPort env protocol
      else if list_all isDigit portData \<and> decimalValue portData \<le> 65535
      then Some (word_of_nat (decimalValue portData))
      else None)"

text \<open>
  Modelled from the spec: \<open>ParseTransport\<close>, code of the hub package that is not part of
  the sources. The spec gives the form \<open><transport>://<ip>/#<base58-hub-ID>\<close> and the
  scenario string \<open>tcp://1.2.3.4:17/#<base58id>\<close>, whose transport is \<open>tcp\<close>, whose host
  is \<open>1.2.3.4\<close>, whose port is 17 and whose fragment is the hub ID; the transport that
  is left when host and fragment are cleared is \<open>tcp://:17\<close>, so the root path \<open>/\<close> is
  not kept. The definition reads a string of that form: the fragment is what follows
  the first \<open>#\<close>, the protocol what precedes \<open>://\<close>, host and port are separated by
  \<open>:\<close> and end at the first \<open>/\<close>. A transport without protocol or with a port that is
  not a number from 1 to 65535 is an error.
\<close>

definition ParseTransport :: "hub_env \<Rightarrow> string \<Rightarrow> lib_error + Transport" where
  "ParseTransport env definition =
     (let body = takeWhile (\<lambda>c. c \<noteq> CHR ''#'') definition;
          fragment = drop 1 (dropWhile (\<lambda>c. c \<noteq> CHR ''#'') definition);
          protocol = takeWhile (\<lambda>c. c \<noteq> CHR '':'') body;
          afterProtocol = dropWhile (\<lambda>c. c \<noteq> CHR '':'') body
      in if protocol = [] \<or> take 3 afterProtocol \<noteq> ''://''
         then Inl (LibError ''missing scheme/protocol'')
         else
           (let rest = drop 3 afterProtocol;
                authority = takeWhile (\<lambda>c. c \<noteq> CHR ''/'') rest;
                path = dropWhile (\<lambda>c. c \<noteq> CHR ''/'') rest;
                host = takeWhile (\<lambda>c. c \<noteq> CHR '':'') authority;
                portData = drop 1 (dropWhile (\<lambda>c. c \<noteq> CHR '':'') authority)
            in case parsePort env protocol portData of
                 None \<Rightarrow> Inl (LibError ''invalid port'')
               | Some port \<Rightarrow>
                   if port = 0 then Inl (LibError ''invalid port'')
                   else Inr \<lparr> Protocol = protocol, Domain = host, Port = port,
                              Path = (if path = ''/'' then '''' else path),
                              Option = fragment \<rparr>))"

text \<open>
  Modelled from the spec: \<open>Transport.String\<close>, code of the hub package that is not part
  of the sources. The spec writes a transport as \<open><transport>://<host>:<port>\<close>, followed
  by \<open>/#<fragment>\<close> in the bootstrap string, and gives \<open>tcp://:17\<close> for the transport
  \<open>tcp\<close>, port 17, with no host and no fragment. The definition prints protocol, host,
  port and path in that form and appends \<open>#\<close> and the fragment when there is one.
\<close>

definition Transport_String :: "Transport \<Rightarrow> string" where
  "Transport_String t =
     Protocol t @ ''://'' @ Domain t @ '':'' @ decimal (unat (Port t)) @ Path t
       @ (if Option t = '''' then '''' else ''#'' @ Option t)"

subsection \<open>IP addresses (Go's package net)\<close>

text \<open>\<open>dtoi\<close> reads a decimal number at the start of a string: the number, the count
  of characters read, and whether there was a digit and the number stayed below
  \<open>0xFFFFFF\<close>.\<close>

fun dtoi_loop :: "nat \<Rightarrow> nat \<Rightarrow> string \<Rightarrow> nat \<times> nat \<times> bool" where
  "dtoi_loop n i [] = (if i = 0 then (0, 0, False) else (n, i, True))"
| "dtoi_loop n i (c # cs) =
     (if isDigit c then
        (let n' = n * 10 + digitVal c
         in if n' \<ge> 0xFFFFFF then (0xFFFFFF, i, False) else dtoi_loop n' (i + 1) cs)
      else if i = 0 then (0, 0, False) else (n, i, True))"

definition dtoi :: "string \<Rightarrow> nat \<times> nat \<times> bool" where
  "dtoi s = dtoi_loop 0 0 s"

text \<open>The loop of \<open>parseIPv4\<close> with \<open>k\<close> components still to read; \<open>first\<close> holds for
  the first component, every later one follows a dot. It returns the bytes and the
  rest of the string.\<close>

fun parseIPv4_loop :: "hub_env \<Rightarrow> nat \<Rightarrow> bool \<Rightarrow> string \<Rightarrow> (byte list \<times> string) option" where
  "parseIPv4_loop env 0 first s = Some ([], s)"
| "parseIPv4_loop env (Suc k) first s =
     (if s = [] then None
      else if \<not> first \<and> hd s \<noteq> CHR ''.'' then None
      else
        (let s1 = (if first then s else tl s)
         in case dtoi s1 of
              (n, c, ok) \<Rightarrow>
                if \<not> ok \<or> n > 0xFF then None
                else if \<not> leadingZeros env \<and> c > 1 \<and> hd s1 = CHR ''0'' then None
                else
                  (case parseIPv4_loop env k False (drop c s1) of
                     None \<Rightarrow> None
                   | Some (p, rest) \<Rightarrow> Some (word_of_nat n # p, rest))))"

definition v4InV6Prefix :: "byte list" where
  "v4InV6Prefix = [0, 0, 0, 0, 0, 0, 0, 0, 0, 0, 0xff, 0xff]"

definition parseIPv4 :: "hub_env \<Rightarrow> string \<Rightarrow> IP option" where
  "parseIPv4 env s =
     (case parseIPv4_loop env 4 True s of
        Some (p, []) \<Rightarrow> Some (v4InV6Prefix @ p)
      | _ \<Rightarrow> None)"

text \<open>\<open>ParseIP\<close> goes by the first dot or colon of the string.\<close>

definition ParseIP :: "hub_env \<Rightarrow> string \<Rightarrow> IP option" where
  "ParseIP env s =
     (case dropWhile (\<lambda>c. c \<noteq> CHR ''.'' \<and> c \<noteq> CHR '':'') s of
        [] \<Rightarrow> None
      | c # _ \<Rightarrow> if c = CHR ''.'' then parseIPv4 env s else parseIPv6 env s)"

definition To4 :: "IP \<Rightarrow> IP option" where
  "To4 ip =
     (if length ip = 4 then Some ip
      else if length ip = 16 \<and> take 12 ip = v4InV6Prefix then Some (drop 12 ip)
      else None)"

subsection \<open>Parsing a bootstrap hub\<close>

record Announcement =
  ID :: string
  Transports :: "string list"
  IPv4 :: "IP option"
  IPv6 :: "IP option"

record Hub =
  ID :: string
  Map :: string
  Info :: Announcement
  Status :: unit

datatype hub_error =
    FailedToParseTransport lib_error
  | MissingHubID
  | HubIDInvalid lib_error
  | InvalidIPAddress

definition ParseBootstrapHub :: "hub_env \<Rightarrow> string \<Rightarrow> string \<Rightarrow> hub_error + Hub" where
  "ParseBootstrapHub env bootstrapTransport mapName =
     (case ParseTransport env bootstrapTransport of
        Inl err \<Rightarrow> Inl (FailedToParseTransport err)
      | Inr t \<Rightarrow>
          if Option t = '''' then Inl MissingHubID
          else
            (case FromBase58 env (Option t) of
               Inl err \<Rightarrow> Inl (HubIDInvalid err)
             | Inr _ \<Rightarrow>
                 (case ParseIP env (Domain t) of
                    None \<Rightarrow> Inl InvalidIPAddress
                  | Some ip \<Rightarrow>
                      (let ident = Option t;
                           t' = t\<lparr>Domain := '''', Option := ''''\<rparr>;
                           bootstrapHub =
                             \<lparr> Hub.ID = ident, Map = mapName,
                               Info = \<lparr> Announcement.ID = ident,
                                        Transports = [Transport_String t'],
                                        IPv4 = None, IPv6 = None \<rparr>,
                               Status = () \<rparr>
                       in case To4 ip of
                            Some ip4 \<Rightarrow>
                              Inr (bootstrapHub\<lparr>Info := (Info bootstrapHub)\<lparr>IPv4 := Some ip4\<rparr>\<rparr>)
                          | None \<Rightarrow>
                              Inr (bootstrapHub\<lparr>Info := (Info bootstrapHub)\<lparr>IPv6 := Some ip\<rparr>\<rparr>)))))"

section \<open>Worked examples\<close>

text \<open>
  An implementation of the library parameters on which the handler can be run: a
  signature is valid when it carries the bytes of the token, and a storage blob holds
  one token per byte: \<open>0\<close> is a nil entry, \<open>1\<close> a token without signature, \<open>2\<close> a token
  whose signature does not verify, any other byte a token that verifies.
\<close>

definition example_token :: "byte \<Rightarrow> PBlindToken option" where
  "example_token b =
     (if b = 0 then None
      else if b = 1 then Some \<lparr>Serial = 1, Token = [b], Signature = None\<rparr>
      else if b = 2 then Some \<lparr>Serial = 1, Token = [b], Signature = Some (SignatureValue [])\<rparr>
      else Some \<lparr>Serial = 1, Token = [b], Signature = Some (SignatureValue [b])\<rparr>)"

definition example_env :: token_env where
  "example_env =
     \<lparr> CompressInfo = (\<lambda>c d. Inr (CompressedInfo d)),
       Check = (\<lambda>pk sig info tok. sig = SignatureValue tok),
       CreateRequester = (\<lambda>pk info tok. Inr (StateRequester tok)),
       ProcessMessage1 = (\<lambda>st m. (None, st)),
       CreateMessage2 = (\<lambda>st. (Inr (Message2 []), st)),
       ProcessMessage2 = (\<lambda>st m. (None, st)),
       CreateMessage3 = (\<lambda>st. (Inr (Message3 []), st)),
       ProcessMessage3 = (\<lambda>st m. (None, st)),
       Signature_of = (\<lambda>st. case st of StateRequester b \<Rightarrow> Inr (SignatureValue b)),
       rand_Read = (\<lambda>i n. (replicate n (word_of_nat i), int n, None)),
       rand_Int = Inr 0,
       Shuffle = (\<lambda>seed ts. ts),
       dsd_Dump_token = (\<lambda>t. case t of None \<Rightarrow> Inr [0] | Some tok \<Rightarrow> Inr (Token tok)),
       dsd_Load_token =
         (\<lambda>d. case d of
                [] \<Rightarrow> Inl (LibError ''no data'')
              | b # _ \<Rightarrow> Inr \<lparr>Serial = uint b, Token = d, Signature = Some (SignatureValue d)\<rparr>),
       dsd_Dump_storage = (\<lambda>ts. Inr (map (\<lambda>t. case t of None \<Rightarrow> 0 | Some tok \<Rightarrow> hd (Token tok)) ts)),
       dsd_Load_storage =
         (\<lambda>d. if d = [] then Inl (LibError ''no data'') else Inr (map example_token d)) \<rparr>"

text \<open>The handler of the spec's token scenario: zone "test", curve P-256, batches of
  16, serials in use.\<close>

definition example_handler :: PBlindHandler where
  "example_handler =
     \<lparr> opts = \<lparr> Zone = ''test'', Curve = P256, UseSerials = True, BatchSize = 16,
                RandomizeOrder = False, SignalShouldRequest = True,
                DoubleSpendProtection = None, Fallback = False \<rparr>,
       publicKey = PublicKeyBytes [], privateKey = None, Storage = [],
       requestState = [] \<rparr>"

text \<open>A hub environment for every digest: its decoder accepts every non-empty
  fragment and decodes it to the labeled hash with that digest.\<close>

definition example_hub_id :: string where
  "example_hub_id = ''Zwtb8EKMatnMRkW1VaLh8CPV3QswD9iuRU4Sda8uLezUkC''"

definition example_hub_env :: "bytes \<Rightarrow> hub_env" where
  "example_hub_env digest =
     \<lparr> FromBase58 =
         (\<lambda>s. if s = [] then Inl (LibError ''no data'') else Inr (LabeledHash digest)),
       parseIPv6 = (\<lambda>s. None),
       defaultPort = (\<lambda>p. None),
       leadingZeros = False \<rparr>"

section \<open>Varint round trip and message framing\<close>

lemma byte_or_0x80_not_less: "\<not> ((w :: byte) OR 0x80 < 0x80)"
proof -
  have "(0x80 :: byte) \<le> w OR 0x80"
    by (simp add: le_word_or1)
  then show ?thesis by simp
qed

lemma byte_payload: "unat (((word_of_nat x :: byte) OR 0x80) AND 0x7f) = take_bit 7 x"
proof -
  have "((word_of_nat x :: byte) OR 0x80) AND 0x7f = take_bit 7 (word_of_nat x)"
    by (simp add: take_bit_eq_mask mask_eq_exp_minus_1 bit.conj_disj_distrib2)
  moreover have "unat (take_bit 7 (word_of_nat x :: byte)) = take_bit 7 x"
    by (simp add: unsigned_take_bit_eq unsigned_of_nat)
  ultimately show ?thesis
    by simp
qed

lemma or_split:
  "push_bit s (take_bit 7 (n::nat)) OR push_bit (s + 7) (drop_bit 7 n) = push_bit s n"
proof (rule bit_eqI)
  fix k
  show "bit (push_bit s (take_bit 7 n) OR push_bit (s + 7) (drop_bit 7 n)) k = bit (push_bit s n) k"
  proof (cases "k < s + 7")
    case True
    then show ?thesis by (auto simp: bit_simps)
  next
    case False
    then have "7 + (k - (s + 7)) = k - s" by simp
    with False show ?thesis by (auto simp: bit_simps)
  qed
qed

text \<open>Decoding what \<open>PutUvarint\<close> wrote, followed by any bytes, gives the number back
  and stops behind its last byte.\<close>

lemma Uvarint_loop_PutUvarint:
  "i + length (PutUvarint n) \<le> 9 \<Longrightarrow>
   Uvarint_loop x s i (PutUvarint n @ rest) = (x OR push_bit s n, int (i + length (PutUvarint n)))"
proof (induction n arbitrary: x s i rule: PutUvarint.induct)
  case (1 n)
  show ?case
  proof (cases "n \<ge> 0x80")
    case True
    have len: "length (PutUvarint n) = Suc (length (PutUvarint (drop_bit 7 n)))"
      using True by (subst PutUvarint.simps) simp
    have step: "Uvarint_loop (x OR push_bit s (take_bit 7 n)) (s + 7) (i + 1) (PutUvarint (drop_bit 7 n) @ rest)
        = ((x OR push_bit s (take_bit 7 n)) OR push_bit (s + 7) (drop_bit 7 n),
           int (i + 1 + length (PutUvarint (drop_bit 7 n))))"
      using "1.IH" [OF True, of "i + 1"] "1.prems" len by simp
    have "Uvarint_loop x s i (PutUvarint n @ rest)
        = Uvarint_loop (x OR push_bit s (take_bit 7 n)) (s + 7) (i + 1) (PutUvarint (drop_bit 7 n) @ rest)"
      using True "1.prems" len
      by (subst PutUvarint.simps) (simp add: byte_or_0x80_not_less byte_payload)
    also note step
    also have "(x OR push_bit s (take_bit 7 n)) OR push_bit (s + 7) (drop_bit 7 n) = x OR push_bit s n"
      by (simp add: or.assoc or_split)
    finally show ?thesis using len by simp
  next
    case False
    then have n: "n < 128" by simp
    have p: "PutUvarint n = [word_of_nat n]"
      using False by (subst PutUvarint.simps) simp
    have u: "unat (word_of_nat n :: byte) = n"
      using n by (simp add: unsigned_of_nat take_bit_nat_eq_self)
    have lt: "(word_of_nat n :: byte) < 0x80"
      using u by (simp add: word_less_nat_alt n)
    from "1.prems" p have "i \<le> 8" by simp
    then show ?thesis using p u lt by simp
  qed
qed

lemma length_PutUvarint: "n < 2 ^ (7 * Suc k) \<Longrightarrow> length (PutUvarint n) \<le> Suc k"
proof (induction k arbitrary: n)
  case 0
  then show ?case by (subst PutUvarint.simps) simp
next
  case (Suc k)
  show ?case
  proof (cases "n \<ge> 0x80")
    case True
    have "drop_bit 7 n < 2 ^ (7 * Suc k)"
      using Suc.prems by (simp add: drop_bit_eq_div less_mult_imp_div_less power_add)
    from Suc.IH [OF this] True show ?thesis
      by (subst PutUvarint.simps) simp
  next
    case False
    then show ?thesis by (subst PutUvarint.simps) simp
  qed
qed

lemma length_PutUvarint_pos: "0 < length (PutUvarint n)"
  by (subst PutUvarint.simps) simp

lemma GetNextN32_Pack32: "GetNextN32 (Prepend (Pack32 v) c) = Inr (v, c)"
proof -
  define p where "p = PutUvarint (unat v)"
  have "unat v < 2 ^ (7 * Suc 4)"
    using unsigned_less [of v, where 'a = nat] by simp
  then have len: "length p \<le> 5"
    unfolding p_def using length_PutUvarint [of "unat v" 4] by simp
  have pos: "0 < length p"
    unfolding p_def by (rule length_PutUvarint_pos)
  have tk: "take 5 (p @ c) = p @ take (5 - length p) c"
    using len by simp
  have uv: "Uvarint (p @ take (5 - length p) c) = (unat v, int (length p))"
    unfolding Uvarint_def p_def
    using Uvarint_loop_PutUvarint [of 0 "unat v" 0 0] len p_def by simp
  have small: "\<not> unat v > 4294967295"
    using unsigned_less [of v, where 'a = nat] by simp
  have un: "Unpack32 (take 5 (p @ c)) = Inr (v, length p)"
    unfolding tk Unpack32_def uv using pos small by simp
  show ?thesis
    unfolding GetNextN32_def Prepend_def Pack32_def p_def [symmetric] un by simp
qed

lemma idType_split:
  fixes ident t :: uint32
  assumes "ident AND 3 = 0" and "t AND 3 = t"
  shows "(ident OR t) mod 4 = t" and "(ident OR t) - t = ident"
proof -
  have "(ident OR t) mod 4 = (ident OR t) AND mask 2"
    using word_mod_2p_is_mask [of 2 "ident OR t"] by simp
  also have "\<dots> = (ident AND 3) OR (t AND 3)"
    by (simp add: mask_eq_exp_minus_1 bit.conj_disj_distrib2)
  finally show "(ident OR t) mod 4 = t"
    using assms by simp
  have "ident AND t = ident AND (3 AND t)"
    using assms(2) by (simp add: and.commute)
  also have "\<dots> = (ident AND 3) AND t"
    by (simp add: and.assoc)
  finally have "ident AND t = 0"
    using assms(1) by simp
  then have "ident OR t = ident + t"
    by (simp add: disjunctive_add_eq_or)
  then show "(ident OR t) - t = ident"
    by simp
qed

lemma ParseIDType_AddIDType:
  assumes "ident AND 3 = 0"
    and "msgType = MsgTypeInit \<or> msgType = MsgTypeData \<or> msgType = MsgTypeStop"
  shows "ParseIDType (AddIDType c ident msgType) = Inr (ident, msgType, c)"
proof -
  have m: "(ucast msgType :: uint32) AND 3 = ucast msgType"
    and rt: "(ucast (ucast msgType :: uint32) :: MsgType) = msgType"
    using assms(2) by (auto simp: MsgTypeInit_def MsgTypeData_def MsgTypeStop_def)
  note sp = idType_split [OF assms(1) m]
  show ?thesis
    by (simp add: ParseIDType_def AddIDType_def GetNextN32_Pack32 sp rt)
qed

lemma ParseIDType_general:
  assumes "GetNextN32 c = Inr (idType, c')"
  shows "\<exists>ident msgType. ParseIDType c = Inr (ident, msgType, c')
     \<and> unat msgType = unat idType mod 4
     \<and> unat ident = unat idType - unat msgType
     \<and> ident = idType - ucast msgType"
proof -
  have lt: "unat idType mod 4 < 256"
    using mod_less_divisor [of 4 "unat idType"] by linarith
  have t: "unat (ucast (idType mod 4) :: MsgType) = unat idType mod 4"
    using lt by (simp add: unsigned_ucast_eq unsigned_take_bit_eq unat_mod take_bit_nat_eq_self)
  have u: "(ucast (ucast (idType mod 4) :: MsgType) :: uint32) = idType mod 4"
    by (rule word_unat_eq_iff [THEN iffD2])
       (use lt in \<open>simp add: unsigned_ucast_eq unsigned_take_bit_eq unat_mod take_bit_nat_eq_self\<close>)
  have le: "idType mod 4 \<le> idType"
    by (simp add: word_le_nat_alt unat_mod)
  have sub: "unat (idType - idType mod 4) = unat idType - unat idType mod 4"
    using unat_sub [OF le] by (simp add: unat_mod)
  show ?thesis
    using assms t u sub by (simp add: ParseIDType_def Let_def)
qed

text \<open>
  C7. For every 32-bit id whose two lowest bits are zero and every message type among
  Init, Data and Stop, \<open>ParseIDType\<close> on a container prepared by \<open>AddIDType\<close> returns
  exactly that id and type and leaves the container as it was before the header was
  added. In general, when the leading varint parses to \<open>idType\<close>, the type returned is
  \<open>idType mod 4\<close> and the id is \<open>idType\<close> minus the type.
\<close>

theorem ParseIDType_spec:
  "(ident AND 3 = 0 \<and> (msgType = MsgTypeInit \<or> msgType = MsgTypeData \<or> msgType = MsgTypeStop)
      \<longrightarrow> ParseIDType (AddIDType c ident msgType) = Inr (ident, msgType, c))
 \<and> (\<forall>idType c'. GetNextN32 d = Inr (idType, c') \<longrightarrow>
       (\<exists>ident' msgType'. ParseIDType d = Inr (ident', msgType', c')
          \<and> unat msgType' = unat idType mod 4
          \<and> unat ident' = unat idType - unat msgType'
          \<and> ident' = idType - ucast msgType'))"
  using ParseIDType_AddIDType [of ident msgType c] ParseIDType_general [of d]
  by blast

theorem ParseIDType_spec_witness:
  "(8 :: uint32) AND 3 = 0
 \<and> ParseIDType (AddIDType [7, 7] 8 MsgTypeData) = Inr (8, MsgTypeData, [7, 7])
 \<and> GetNextN32 [0x0b, 7] = Inr (11, [7])
 \<and> ParseIDType [0x0b, 7] = Inr (8, 3, [7])"
proof -
  have a: "(8 :: uint32) AND 3 = 0" by simp
  have g: "GetNextN32 [0x0b, 7] = Inr (11, [7])"
    by (simp add: GetNextN32_def Unpack32_def Uvarint_def)
  have p: "ParseIDType [0x0b, 7] = Inr (8, 3, [7])"
    by (simp add: ParseIDType_def g)
  from ParseIDType_spec [of 8 MsgTypeData "[7, 7]" "[0x0b, 7]"] a g p
  show ?thesis by (simp add: MsgTypeData_def)
qed

section \<open>The duplex flow queue\<close>

lemma sint_word_of_int_le:
  "0 \<le> k \<Longrightarrow> sint (word_of_int k :: 32 word) \<le> k"
proof (cases "k < 2 ^ 31")
  case True
  assume "0 \<le> k"
  with True have "sint (word_of_int k :: 32 word) = k"
    by (simp add: signed_of_int signed_take_bit_int_eq_self)
  then show ?thesis by simp
next
  case False
  have "sint (word_of_int k :: 32 word) < 2 ^ 31"
    using sint_lt [of "word_of_int k :: 32 word"] by simp
  with False show ?thesis by linarith
qed

text \<open>
  C10. \<open>Deliver\<close> called with a nil container returns the malformed-data error at once
  and changes no state: the queue after the call is the queue before it.
\<close>

theorem Deliver_nil_container:
  "Deliver dfq None = (Some (ErrMalformedData NoData), dfq)"
  by (simp add: Deliver_def)

text \<open>
  C1. For a non-nil container whose leading varint parses to \<open>addSpace\<close>, leaving
  \<open>c'\<close>: \<open>sendSpace\<close> grows by \<open>addSpace\<close> (and the sender is woken when it is positive);
  if \<open>c'\<close> holds no data the call returns nil and nothing is enqueued; otherwise, if the
  receive queue has a free slot, \<open>c'\<close> is enqueued and \<open>reportedSpace\<close> drops by one, and
  if it is full the call returns \<open>ErrQueueOverflow\<close> and the receive queue is unchanged.
\<close>

theorem Deliver_spec:
  assumes "GetNextN16 c = Inr (addSpace, c')"
  shows "sendSpace (snd (Deliver dfq (Some c))) = sendSpace dfq + ucast addSpace
    \<and> (addSpace > 0 \<longrightarrow> wakeSender (snd (Deliver dfq (Some c))))
    \<and> (\<not> HoldsData c' \<longrightarrow>
          fst (Deliver dfq (Some c)) = None
        \<and> recvQueue (snd (Deliver dfq (Some c))) = recvQueue dfq
        \<and> reportedSpace (snd (Deliver dfq (Some c))) = reportedSpace dfq)
    \<and> (HoldsData c' \<and> length (recvQueue dfq) < queueCap dfq \<longrightarrow>
          fst (Deliver dfq (Some c)) = None
        \<and> recvQueue (snd (Deliver dfq (Some c))) = recvQueue dfq @ [c']
        \<and> reportedSpace (snd (Deliver dfq (Some c))) = reportedSpace dfq - 1)
    \<and> (HoldsData c' \<and> \<not> length (recvQueue dfq) < queueCap dfq \<longrightarrow>
          fst (Deliver dfq (Some c)) = Some ErrQueueOverflow
        \<and> recvQueue (snd (Deliver dfq (Some c))) = recvQueue dfq
        \<and> reportedSpace (snd (Deliver dfq (Some c))) = reportedSpace dfq)"
  using assms
  by (cases "addSpace = 0")
     (auto simp: Deliver_def addToSendSpace_def trySend_def decrementReportedRecvSpace_def
        Let_def word_gt_0 split: prod.splits)

theorem Deliver_spec_witness:
  "GetNextN16 [5, 0x41] = Inr (5, [0x41]) \<and> HoldsData [0x41]
 \<and> length (recvQueue (NewDuplexFlowQueue 4)) < queueCap (NewDuplexFlowQueue 4)
 \<and> fst (Deliver (NewDuplexFlowQueue 4) (Some [5, 0x41])) = None
 \<and> sendSpace (snd (Deliver (NewDuplexFlowQueue 4) (Some [5, 0x41]))) = 9
 \<and> recvQueue (snd (Deliver (NewDuplexFlowQueue 4) (Some [5, 0x41]))) = [[0x41]]
 \<and> reportedSpace (snd (Deliver (NewDuplexFlowQueue 4) (Some [5, 0x41]))) = 3
 \<and> GetNextN16 [5] = Inr (5, []) \<and> \<not> HoldsData []
 \<and> fst (Deliver (NewDuplexFlowQueue 4) (Some [5])) = None
 \<and> recvQueue (snd (Deliver (NewDuplexFlowQueue 4) (Some [5]))) = []
 \<and> GetNextN16 [0, 0x41] = Inr (0, [0x41])
 \<and> \<not> length (recvQueue ((NewDuplexFlowQueue 1)\<lparr>recvQueue := [[7]]\<rparr>))
        < queueCap ((NewDuplexFlowQueue 1)\<lparr>recvQueue := [[7]]\<rparr>)
 \<and> fst (Deliver ((NewDuplexFlowQueue 1)\<lparr>recvQueue := [[7]]\<rparr>) (Some [0, 0x41]))
      = Some ErrQueueOverflow
 \<and> recvQueue (snd (Deliver ((NewDuplexFlowQueue 1)\<lparr>recvQueue := [[7]]\<rparr>) (Some [0, 0x41])))
      = [[7]]"
proof -
  have g1: "GetNextN16 [5, 0x41] = Inr (5, [0x41])"
    and g2: "GetNextN16 [5] = Inr (5, [])"
    and g3: "GetNextN16 [0, 0x41] = Inr (0, [0x41])"
    by (simp_all add: GetNextN16_def Unpack16_def Uvarint_def)
  from Deliver_spec [OF g1, of "NewDuplexFlowQueue 4"]
       Deliver_spec [OF g2, of "NewDuplexFlowQueue 4"]
       Deliver_spec [OF g3, of "(NewDuplexFlowQueue 1)\<lparr>recvQueue := [[7]]\<rparr>"] g1 g2 g3
  show ?thesis
    by (simp add: HoldsData_def NewDuplexFlowQueue_def)
qed

text \<open>
  C2, as the spec states it, fails in its last part: the call does not bring
  \<open>reportedSpace\<close> down to the free receive space. \<open>Deliver\<close> puts the container on the
  receive queue before it decrements \<open>reportedSpace\<close>; for a fresh queue of four slots
  the state in between has one queued container and \<open>reportedSpace = 4\<close>. There
  \<open>toReport = 3 - 4\<close>, the call returns 0 and \<open>reportedSpace\<close> stays 4, above the free
  space 3.
\<close>

theorem reportableRecvSpace_exceeds_free:
  "trySend (queueCap (NewDuplexFlowQueue 4)) (recvQueue (NewDuplexFlowQueue 4)) [0x41] = Some [[0x41]]
 \<and> fst (reportableRecvSpace ((NewDuplexFlowQueue 4)\<lparr>recvQueue := [[0x41]]\<rparr>)) = 0
 \<and> sint (reportedSpace (snd (reportableRecvSpace ((NewDuplexFlowQueue 4)\<lparr>recvQueue := [[0x41]]\<rparr>)))) = 4
 \<and> int (queueCap ((NewDuplexFlowQueue 4)\<lparr>recvQueue := [[0x41]]\<rparr>))
      - int (length (recvQueue ((NewDuplexFlowQueue 4)\<lparr>recvQueue := [[0x41]]\<rparr>))) = 3"
  by (simp add: reportableRecvSpace_def NewDuplexFlowQueue_def trySend_def word_sle_eq)

text \<open>
  C2, amended. With \<open>toReport = int32(cap - len) - reportedSpace\<close> in 32-bit
  arithmetic: if \<open>toReport \<le> 1\<close> the call returns 0 and leaves the queue unchanged;
  otherwise it adds \<open>toReport\<close> to \<open>reportedSpace\<close> and returns it. It never returns 1.
  While nothing overflows, \<open>toReport\<close> is the integer \<open>(cap - len) - reportedSpace\<close>.
  The call never raises \<open>reportedSpace\<close> above the free receive space: after a
  non-zero return \<open>reportedSpace\<close> is \<open>int32(cap - len)\<close>, and if it did not exceed
  \<open>cap - len\<close> before the call it does not exceed it afterwards.
\<close>

theorem reportableRecvSpace_spec:
  fixes dfq :: DuplexFlowQueue
  defines "free \<equiv> int (queueCap dfq) - int (length (recvQueue dfq))"
  defines "toReport \<equiv> (word_of_int free :: int32) - reportedSpace dfq"
  shows "(toReport \<le>s 1 \<longrightarrow> reportableRecvSpace dfq = (0, dfq))
    \<and> (\<not> toReport \<le>s 1 \<longrightarrow>
          reportableRecvSpace dfq = (toReport, dfq\<lparr>reportedSpace := word_of_int free\<rparr>)
        \<and> reportedSpace dfq + toReport = word_of_int free)
    \<and> fst (reportableRecvSpace dfq) \<noteq> 1
    \<and> (- (2 ^ 31) \<le> free - sint (reportedSpace dfq) \<and> free - sint (reportedSpace dfq) < 2 ^ 31
          \<and> - (2 ^ 31) \<le> free \<and> free < 2 ^ 31
        \<longrightarrow> sint toReport = free - sint (reportedSpace dfq))
    \<and> (length (recvQueue dfq) \<le> queueCap dfq \<and> sint (reportedSpace dfq) \<le> free \<longrightarrow>
          sint (reportedSpace (snd (reportableRecvSpace dfq))) \<le> free)"
proof -
  have sum: "reportedSpace dfq + toReport = word_of_int free"
    by (simp add: toReport_def)
  have a: "toReport \<le>s 1 \<Longrightarrow> reportableRecvSpace dfq = (0, dfq)"
    by (simp add: reportableRecvSpace_def toReport_def free_def)
  have b: "\<not> toReport \<le>s 1 \<Longrightarrow>
      reportableRecvSpace dfq = (toReport, dfq\<lparr>reportedSpace := word_of_int free\<rparr>)"
    using sum by (simp add: reportableRecvSpace_def toReport_def free_def Let_def)
  have c: "fst (reportableRecvSpace dfq) \<noteq> 1"
  proof (cases "toReport \<le>s 1")
    case True then show ?thesis using a by simp
  next
    case False
    then have "toReport \<noteq> 1" by auto
    with False b show ?thesis by simp
  qed
  have d: "sint (reportedSpace (snd (reportableRecvSpace dfq))) \<le> free"
    if "length (recvQueue dfq) \<le> queueCap dfq" "sint (reportedSpace dfq) \<le> free"
  proof (cases "toReport \<le>s 1")
    case True then show ?thesis using a that by simp
  next
    case False
    have "0 \<le> free" using that(1) by (simp add: free_def)
    then show ?thesis using b [OF False] sint_word_of_int_le [of free] by simp
  qed
  have e: "sint toReport = free - sint (reportedSpace dfq)"
    if "- (2 ^ 31) \<le> free - sint (reportedSpace dfq)" "free - sint (reportedSpace dfq) < 2 ^ 31"
       "- (2 ^ 31) \<le> free" "free < 2 ^ 31"
  proof -
    have f: "sint (word_of_int free :: int32) = free"
      using that(3,4) by (simp add: signed_of_int signed_take_bit_int_eq_self)
    have "sint toReport = signed_take_bit 31 (sint (word_of_int free :: int32) - sint (reportedSpace dfq))"
      unfolding toReport_def by (simp add: sint_word_ariths)
    also have "\<dots> = free - sint (reportedSpace dfq)"
      unfolding f using that(1,2) by (simp add: signed_take_bit_int_eq_self)
    finally show ?thesis .
  qed
  from a b c d e sum show ?thesis by blast
qed

theorem reportableRecvSpace_spec_witness:
  "reportableRecvSpace ((NewDuplexFlowQueue 4)\<lparr>reportedSpace := 1\<rparr>)
     = (3, (NewDuplexFlowQueue 4)\<lparr>reportedSpace := 4\<rparr>)
 \<and> length (recvQueue ((NewDuplexFlowQueue 4)\<lparr>reportedSpace := 1\<rparr>))
      \<le> queueCap ((NewDuplexFlowQueue 4)\<lparr>reportedSpace := 1\<rparr>)
 \<and> sint (reportedSpace (snd (reportableRecvSpace ((NewDuplexFlowQueue 4)\<lparr>reportedSpace := 1\<rparr>)))) \<le> 4
 \<and> reportableRecvSpace (NewDuplexFlowQueue 4) = (0, NewDuplexFlowQueue 4)"
  using reportableRecvSpace_spec [of "(NewDuplexFlowQueue 4)\<lparr>reportedSpace := 1\<rparr>"]
    reportableRecvSpace_spec [of "NewDuplexFlowQueue 4"]
  by (simp add: NewDuplexFlowQueue_def word_sle_eq)

section \<open>The token handler\<close>

subsection \<open>Storage level\<close>

lemma go_quo_nonneg: "0 \<le> a \<Longrightarrow> 0 < b \<Longrightarrow> go_quo a b = a div b"
  by (cases "a = 0") (simp_all add: go_quo_def)

lemma div_gt_10_iff:
  fixes a b :: int
  assumes "0 < b"
  shows "10 < a div b \<longleftrightarrow> 11 * b \<le> a"
proof
  assume "10 < a div b"
  then have "11 \<le> a div b" by simp
  then have "b * 11 \<le> b * (a div b)"
    using assms by (simp add: mult_left_mono)
  also have "b * (a div b) \<le> a"
    using assms pos_mod_sign [of b a] mult_div_mod_eq [of b a] by linarith
  finally show "11 * b \<le> a" by (simp add: mult.commute)
next
  assume "11 * b \<le> a"
  then have "(11 * b) div b \<le> a div b"
    using assms by (rule zdiv_mono1)
  then show "10 < a div b" using assms by simp
qed

text \<open>What the test of \<open>shouldRequest\<close> computes: the storage is empty or holds at most
  an eleventh of the batch size.\<close>

lemma shouldRequest_iff:
  assumes "0 \<le> BatchSize (opts pbh)"
  shows "shouldRequest pbh \<longleftrightarrow>
     Storage pbh = [] \<or> 11 * int (length (Storage pbh)) \<le> BatchSize (opts pbh)"
proof (cases "Storage pbh = []")
  case True
  then show ?thesis by (simp add: shouldRequest_def)
next
  case False
  then have pos: "0 < int (length (Storage pbh))" by simp
  from False pos assms show ?thesis
    by (simp add: shouldRequest_def go_quo_nonneg div_gt_10_iff)
qed

text \<open>
  C6. The claim asks for "should request" exactly when the storage is empty or holds
  at most 10% of the batch size, as the comment in \<open>shouldRequest\<close> says ("at or below
  10%"). The code tests \<open>BatchSize / len(Storage) > 10\<close> in integer division. With a
  batch size of 100 and 10 stored tokens, exactly 10%, the quotient is 10 and the
  answer is no; the same holds for \<open>GetToken\<close> popping the eleventh-last token: the
  callback is not called.
\<close>

theorem shouldRequest_at_ten_percent:
  "10 * int (length (replicate 10 t)) \<le> (100 :: int)
 \<and> \<not> ShouldRequest (pbh\<lparr>opts := (opts pbh)\<lparr>BatchSize := 100\<rparr>, Storage := replicate 10 t\<rparr>)
 \<and> \<not> snd (snd (GetToken example_env
        (example_handler\<lparr>opts := (opts example_handler)\<lparr>BatchSize := 100\<rparr>,
           Storage := replicate 11 (example_token 3)\<rparr>)))"
  by (simp add: ShouldRequest_def shouldRequest_def go_quo_def GetToken_def example_env_def
      example_handler_def example_token_def numeral_eq_Suc)

subsection \<open>Save and load\<close>

text \<open>
  C9. With an empty storage \<open>Save\<close> returns the token-empty error and no data; so every
  blob that \<open>Save\<close> returns is the serialisation of a storage list with at least one
  token.
\<close>

theorem Save_spec:
  "(Storage pbh = [] \<longrightarrow> Save env pbh = Err ErrEmpty)
 \<and> (\<forall>data. Save env pbh = Ok data \<longrightarrow>
        Storage pbh \<noteq> [] \<and> dsd_Dump_storage env (Storage pbh) = Inr data)"
  by (auto simp: Save_def split: sum.splits if_splits)

theorem Save_spec_witness:
  "Storage example_handler = [] \<and> Save example_env example_handler = Err ErrEmpty
 \<and> Save example_env (example_handler\<lparr>Storage := [example_token 3]\<rparr>) = Ok [3]
 \<and> Storage (example_handler\<lparr>Storage := [example_token 3]\<rparr>) \<noteq> []"
  using Save_spec [of example_handler example_env]
    Save_spec [of "example_handler\<lparr>Storage := [example_token 3]\<rparr>" example_env]
  by (simp add: Save_def example_handler_def example_env_def example_token_def)

lemma Load_check_Ok_iff:
  "Load_check env pbh ts = Ok () \<longleftrightarrow>
     (\<forall>tp \<in> set ts. \<exists>t sig info. tp = Some t \<and> Signature t = Some sig
        \<and> makeInfo env pbh (Serial t) = Inr info
        \<and> Check env (publicKey pbh) sig info (Token t))"
  by (induction ts) (auto split: option.splits sum.splits)

lemma Load_check_first_invalid:
  assumes "Load_check env pbh good = Ok ()"
    and "Signature t = Some sig" and "makeInfo env pbh (Serial t) = Inr info"
    and "\<not> Check env (publicKey pbh) sig info (Token t)"
  shows "Load_check env pbh (good @ Some t # rest) = Err ErrTokenInvalid"
  using assms by (induction good) (auto split: option.splits sum.splits if_splits)

lemma Load_unchanged_unless_Ok:
  "fst (Load env pbh data) \<noteq> Ok () \<Longrightarrow> snd (Load env pbh data) = pbh"
  by (auto simp: Load_def split: sum.splits result.splits)

text \<open>
  C3. The claim asks \<open>Load\<close> to return an error whenever a contained token's signature
  fails verification. \<open>Load\<close> dereferences \<open>t.Signature\<close> without a nil test. The blob
  \<open>[1, 2]\<close> deserialises to a token without signature followed by a token whose
  signature the public key rejects; \<open>Load\<close> panics with a nil dereference on the first
  and never returns the error for the second. The handler is unchanged.
\<close>

theorem Load_panics_before_invalid_token:
  "dsd_Load_storage example_env [1, 2]
     = Inr [Some \<lparr>Serial = 1, Token = [1], Signature = None\<rparr>,
            Some \<lparr>Serial = 1, Token = [2], Signature = Some (SignatureValue [])\<rparr>]
 \<and> makeInfo example_env example_handler 1 = Inr (CompressedInfo (infoData example_handler 1))
 \<and> \<not> Check example_env (publicKey example_handler) (SignatureValue [])
        (CompressedInfo (infoData example_handler 1)) [2]
 \<and> Load example_env example_handler [1, 2] = (Panicked NilDereference, example_handler)"
  by (simp add: Load_def makeInfo_def example_env_def example_token_def)

text \<open>
  On every other path \<open>Load\<close> does what the claim says. It returns the error and leaves
  the handler unchanged when the blob fails to deserialise, and returns the
  token-invalid error, handler unchanged, when a contained token's signature fails
  verification against the public key and the recomputed info of its serial and
  every token before it verifies. Whenever \<open>Load\<close> does not succeed the handler, and so
  its storage, is unchanged; the storage is replaced by the loaded list only when
  every contained token verifies.
\<close>

lemma Load_behaviour:
  "(\<forall>err. dsd_Load_storage env data = Inl err \<longrightarrow> Load env pbh data = (Err (ErrLib err), pbh))
 \<and> (\<forall>good t sig info rest.
       dsd_Load_storage env data = Inr (good @ Some t # rest)
       \<and> Load_check env pbh good = Ok ()
       \<and> Signature t = Some sig \<and> makeInfo env pbh (Serial t) = Inr info
       \<and> \<not> Check env (publicKey pbh) sig info (Token t)
       \<longrightarrow> Load env pbh data = (Err ErrTokenInvalid, pbh))
 \<and> (fst (Load env pbh data) \<noteq> Ok () \<longrightarrow> snd (Load env pbh data) = pbh)
 \<and> (fst (Load env pbh data) = Ok () \<longrightarrow>
       (\<exists>ts. dsd_Load_storage env data = Inr ts \<and> snd (Load env pbh data) = pbh\<lparr>Storage := ts\<rparr>
          \<and> (\<forall>tp \<in> set ts. \<exists>t sig info. tp = Some t \<and> Signature t = Some sig
                \<and> makeInfo env pbh (Serial t) = Inr info
                \<and> Check env (publicKey pbh) sig info (Token t))))"
proof (intro conjI allI impI)
  fix err assume "dsd_Load_storage env data = Inl err"
  then show "Load env pbh data = (Err (ErrLib err), pbh)" by (simp add: Load_def)
next
  fix good t sig info rest
  assume a: "dsd_Load_storage env data = Inr (good @ Some t # rest)
       \<and> Load_check env pbh good = Ok ()
       \<and> Signature t = Some sig \<and> makeInfo env pbh (Serial t) = Inr info
       \<and> \<not> Check env (publicKey pbh) sig info (Token t)"
  then have "Load_check env pbh (good @ Some t # rest) = Err ErrTokenInvalid"
    using Load_check_first_invalid [of env pbh good t sig info rest] by simp
  with a show "Load env pbh data = (Err ErrTokenInvalid, pbh)" by (simp add: Load_def)
next
  assume "fst (Load env pbh data) \<noteq> Ok ()"
  then show "snd (Load env pbh data) = pbh" by (rule Load_unchanged_unless_Ok)
next
  assume ok: "fst (Load env pbh data) = Ok ()"
  then obtain ts where ts: "dsd_Load_storage env data = Inr ts"
    by (cases "dsd_Load_storage env data") (auto simp: Load_def)
  with ok have chk: "Load_check env pbh ts = Ok ()"
    by (auto simp: Load_def split: result.splits)
  with ts have "snd (Load env pbh data) = pbh\<lparr>Storage := ts\<rparr>"
    by (simp add: Load_def)
  with ts chk show "\<exists>ts. dsd_Load_storage env data = Inr ts \<and> snd (Load env pbh data) = pbh\<lparr>Storage := ts\<rparr>
          \<and> (\<forall>tp \<in> set ts. \<exists>t sig info. tp = Some t \<and> Signature t = Some sig
                \<and> makeInfo env pbh (Serial t) = Inr info
                \<and> Check env (publicKey pbh) sig info (Token t))"
    by (auto simp: Load_check_Ok_iff)
qed

lemma Load_examples:
  "Load example_env example_handler [] = (Err (ErrLib (LibError ''no data'')), example_handler)
 \<and> Load example_env example_handler [3, 2, 4] = (Err ErrTokenInvalid, example_handler)
 \<and> Load example_env example_handler [3, 4]
     = (Ok (), example_handler\<lparr>Storage :=
          [Some \<lparr>Serial = 1, Token = [3], Signature = Some (SignatureValue [3])\<rparr>,
           Some \<lparr>Serial = 1, Token = [4], Signature = Some (SignatureValue [4])\<rparr>]\<rparr>)"
  by (simp add: Load_def makeInfo_def example_env_def example_token_def)


subsection \<open>Verification\<close>

text \<open>
  C5. When the token's zone differs from the handler's, \<open>Verify\<close> returns the
  zone-mismatch error whatever the rest of the token is. When the zone matches and
  the data unpacks to \<open>t\<close>, \<open>Verify\<close> returns the token-malformed error ("invalid
  serial") unless serials are used and \<open>1 \<le> Serial \<le> BatchSize\<close>, or serials are not
  used and \<open>Serial = 0\<close>.
\<close>

theorem Verify_spec:
  "(Zone_t token \<noteq> Zone (opts pbh) \<longrightarrow> Verify env pbh token = Err ErrZoneMismatch)
 \<and> (\<forall>t. Zone_t token = Zone (opts pbh) \<and> dsd_Load_token env (Data_t token) = Inr t
        \<and> \<not> (UseSerials (opts pbh) \<and> 1 \<le> Serial t \<and> Serial t \<le> BatchSize (opts pbh)
             \<or> \<not> UseSerials (opts pbh) \<and> Serial t = 0)
      \<longrightarrow> Verify env pbh token = Err (ErrTokenMalformed (ErrMsg ''invalid serial'')))"
  by (auto simp: Verify_def)

theorem Verify_spec_witness:
  "Zone_t \<lparr>Zone_t = ''other'', Data_t = [3]\<rparr> \<noteq> Zone (opts example_handler)
 \<and> Verify example_env example_handler \<lparr>Zone_t = ''other'', Data_t = [3]\<rparr> = Err ErrZoneMismatch
 \<and> dsd_Load_token example_env [17]
      = Inr \<lparr>Serial = 17, Token = [17], Signature = Some (SignatureValue [17])\<rparr>
 \<and> Verify example_env example_handler \<lparr>Zone_t = ''test'', Data_t = [17]\<rparr>
      = Err (ErrTokenMalformed (ErrMsg ''invalid serial''))
 \<and> Verify example_env example_handler \<lparr>Zone_t = ''test'', Data_t = [16]\<rparr> = Ok ()"
  using Verify_spec [of "\<lparr>Zone_t = ''other'', Data_t = [3]\<rparr>" example_handler example_env]
    Verify_spec [of "\<lparr>Zone_t = ''test'', Data_t = [17]\<rparr>" example_handler example_env]
  by (simp add: Verify_def makeInfo_def example_handler_def example_env_def)

subsection \<open>The batch protocol\<close>

lemma CreateTokenRequest_wrong_count:
  "int (length msgs) \<noteq> BatchSize (opts pbh) \<Longrightarrow>
   CreateTokenRequest env pbh msgs =
     (Err (ErrInvalidCount ''invalid request setup msg count'' (length msgs)), pbh)"
  by (simp add: CreateTokenRequest_def)

lemma CreateTokenRequest_loop_nil_slot:
  assumes "j < length msgs" and "msgs ! j = None" and "int (length msgs) = BatchSize (opts pbh)"
  shows "i \<le> j \<Longrightarrow> \<exists>e rs'. CreateTokenRequest_loop env pbh msgs i rs out = (Err e, rs')"
proof (induction "j - i" arbitrary: i rs out)
  case 0
  then have "i = j" by simp
  with assms show ?case
    by (subst CreateTokenRequest_loop.simps) (simp add: at_index_def)
next
  case (Suc k)
  then have lt: "i < j" by simp
  have IH: "\<exists>e rs'. CreateTokenRequest_loop env pbh msgs (Suc i) rs1 out1 = (Err e, rs')" for rs1 out1
    using Suc.hyps(1) [of "Suc i" rs1 out1] Suc.hyps(2) lt by simp
  from lt assms have b: "int i < BatchSize (opts pbh)" and il: "i < length msgs" by auto
  show ?case
    by (subst CreateTokenRequest_loop.simps)
       (use b il IH in \<open>simp add: at_index_def Let_def split: option.splits prod.splits sum.splits\<close>)
qed

text \<open>\<open>CreateTokenRequest\<close> and \<open>IssueTokens\<close> check every message slot: a batch of
  the wrong length or with a nil slot gives a returned error, and neither of them
  writes the storage.\<close>

lemma CreateTokenRequest_malformed_batch:
  assumes "int (length msgs) \<noteq> BatchSize (opts pbh) \<or> None \<in> set msgs"
  shows "\<exists>e. fst (CreateTokenRequest env pbh msgs) = Err e"
proof (cases "int (length msgs) = BatchSize (opts pbh)")
  case False
  then show ?thesis by (simp add: CreateTokenRequest_wrong_count)
next
  case True
  with assms obtain j where j: "j < length msgs" "msgs ! j = None"
    by (auto simp: in_set_conv_nth)
  obtain e rs' where
    "CreateTokenRequest_loop env pbh msgs 0
       (replicate (nat (BatchSize (opts pbh))) emptyRequestState)
       (replicate (nat (BatchSize (opts pbh))) None) = (Err e, rs')"
    using CreateTokenRequest_loop_nil_slot [OF j True, of 0] by blast
  with True show ?thesis by (simp add: CreateTokenRequest_def)
qed

lemma CreateTokenRequest_Storage:
  "Storage (snd (CreateTokenRequest env pbh msgs)) = Storage pbh"
  by (simp add: CreateTokenRequest_def Let_def split: prod.splits)

lemma IssueTokens_loop_nil_slot:
  assumes "j < length msgs" and "msgs ! j = None" and "int (length msgs) = BatchSize (opts pbh)"
    and "length signers = length msgs"
  shows "i \<le> j \<Longrightarrow> \<exists>e. IssueTokens_loop env pbh signers msgs i out = Err e"
proof (induction "j - i" arbitrary: i out)
  case 0
  then have "i = j" by simp
  with assms show ?case
    by (subst IssueTokens_loop.simps) (simp add: at_index_def)
next
  case (Suc k)
  then have lt: "i < j" by simp
  have IH: "\<exists>e. IssueTokens_loop env pbh signers msgs (Suc i) out1 = Err e" for out1
    using Suc.hyps(1) [of "Suc i" out1] Suc.hyps(2) lt by simp
  from lt assms have b: "int i < BatchSize (opts pbh)" and il: "i < length msgs" by auto
  show ?case
    by (subst IssueTokens_loop.simps)
       (use b il IH assms(4) in
         \<open>simp add: at_index_def Let_def split: option.splits prod.splits sum.splits\<close>)
qed

lemma IssueTokens_malformed_batch:
  assumes "int (length msgs) \<noteq> BatchSize (opts pbh) \<or> None \<in> set msgs"
  shows "\<exists>e. IssueTokens env pbh signers msgs = Err e"
proof (cases "int (length msgs) = BatchSize (opts pbh) \<and> int (length signers) = BatchSize (opts pbh)")
  case False
  then show ?thesis by (auto simp: IssueTokens_def)
next
  case True
  with assms obtain j where j: "j < length msgs" "msgs ! j = None"
    by (auto simp: in_set_conv_nth)
  from True have "length signers = length msgs" by linarith
  with True j show ?thesis
    using IssueTokens_loop_nil_slot [of j msgs pbh signers 0 env]
    by (simp add: IssueTokens_def)
qed

text \<open>\<open>ProcessIssuedTokens\<close> returns an error for a batch of the wrong length and for
  a signature that does not check, and it writes the storage only on success.\<close>

lemma ProcessIssuedTokens_wrong_count:
  "int (length msgs) \<noteq> BatchSize (opts pbh) \<Longrightarrow>
   ProcessIssuedTokens env pbh msgs =
     (Err (ErrInvalidCount ''invalid issued token count'' (length msgs)), pbh)"
  by (simp add: ProcessIssuedTokens_def)

lemma ProcessIssuedTokens_loop_bad_signature:
  assumes "int i < BatchSize (opts pbh)"
    and "at_index (requestState pbh) i = Some rs" and "at_index msgs i = Some (Some m)"
    and "State rs = Some st" and "ProcessMessage3 env st m = (None, st1)"
    and "Signature_of env st1 = Inr signature" and "makeInfo env pbh (int i + 1) = Inr info"
    and "\<not> Check env (publicKey pbh) signature info (Token_rs rs)"
  shows "ProcessIssuedTokens_loop env pbh msgs i fin = Err (ErrInvalidSignature i)"
  using assms by (subst ProcessIssuedTokens_loop.simps) simp

lemma ProcessIssuedTokens_Storage:
  "fst (ProcessIssuedTokens env pbh msgs) \<noteq> Ok () \<Longrightarrow>
   Storage (snd (ProcessIssuedTokens env pbh msgs)) = Storage pbh"
  by (auto simp: ProcessIssuedTokens_def Let_def split: result.splits sum.splits if_splits)

text \<open>
  C4. The claim asks every one of the three operations to return an error for a batch
  with a nil message slot. \<open>CreateTokenRequest\<close> and \<open>IssueTokens\<close> test the slot;
  \<open>ProcessIssuedTokens\<close> dereferences \<open>issuedTokens.Msgs[i]\<close> without the test. For a
  handler with batch size 1 that holds a request state, the batch with one nil slot
  makes it panic with a nil dereference instead of returning an error. The storage
  is unchanged.
\<close>

theorem ProcessIssuedTokens_nil_slot_panics:
  "fst (ProcessIssuedTokens env (pbh\<lparr>opts := (opts pbh)\<lparr>BatchSize := 1\<rparr>, requestState := [rs]\<rparr>) [None])
     = Panicked NilDereference
 \<and> Storage (snd (ProcessIssuedTokens env
        (pbh\<lparr>opts := (opts pbh)\<lparr>BatchSize := 1\<rparr>, requestState := [rs]\<rparr>) [None])) = Storage pbh"
  by (simp add: ProcessIssuedTokens_def ProcessIssuedTokens_loop.simps [of _ _ _ 0] at_index_def)

section \<open>Bootstrap hubs\<close>

lemma decimal_17: "decimal 17 = ''17''"
  by (simp add: decimal.simps)

text \<open>The scenario string with any fragment parses to the transport \<open>tcp\<close>, host
  \<open>1.2.3.4\<close>, port 17, no path, and that fragment.\<close>

lemma ParseTransport_scenario:
  "ParseTransport env (''tcp://1.2.3.4:17/#'' @ frag)
     = Inr \<lparr>Protocol = ''tcp'', Domain = ''1.2.3.4'', Port = 17, Path = '''', Option = frag\<rparr>"
  by (simp add: ParseTransport_def parsePort_def isDigit_def digitVal_def decimalValue_def)

lemma ParseTransport_no_fragment:
  "ParseTransport env ''tcp://1.2.3.4:17/''
     = Inr \<lparr>Protocol = ''tcp'', Domain = ''1.2.3.4'', Port = 17, Path = '''', Option = ''''\<rparr>"
  by (simp add: ParseTransport_def parsePort_def isDigit_def digitVal_def decimalValue_def)

lemma ParseTransport_domain:
  "ParseTransport env (''tcp://example.org:17/#'' @ frag)
     = Inr \<lparr>Protocol = ''tcp'', Domain = ''example.org'', Port = 17, Path = '''', Option = frag\<rparr>"
  by (simp add: ParseTransport_def parsePort_def isDigit_def digitVal_def decimalValue_def)

lemma Transport_String_tcp_17:
  "Transport_String \<lparr>Protocol = ''tcp'', Domain = '''', Port = 17, Path = '''', Option = ''''\<rparr>
     = ''tcp://:17''"
  by (simp add: Transport_String_def decimal_17)

lemma four_components: "(4 :: nat) = Suc (Suc (Suc (Suc 0)))"
  by simp

lemma ParseIP_1_2_3_4:
  "ParseIP env ''1.2.3.4'' = Some [0, 0, 0, 0, 0, 0, 0, 0, 0, 0, 0xff, 0xff, 1, 2, 3, 4]"
proof -
  have "parseIPv4 env ''1.2.3.4'' = Some [0, 0, 0, 0, 0, 0, 0, 0, 0, 0, 0xff, 0xff, 1, 2, 3, 4]"
    unfolding parseIPv4_def four_components
    by (simp add: v4InV6Prefix_def dtoi_def isDigit_def digitVal_def)
  then show ?thesis by (simp add: ParseIP_def)
qed

lemma ParseIP_domain: "ParseIP env ''example.org'' = None"
proof -
  have "parseIPv4 env ''example.org'' = None"
    unfolding parseIPv4_def four_components
    by (simp add: dtoi_def isDigit_def)
  then show ?thesis by (simp add: ParseIP_def)
qed

lemma To4_1_2_3_4:
  "To4 [0, 0, 0, 0, 0, 0, 0, 0, 0, 0, 0xff, 0xff, 1, 2, 3, 4] = Some [1, 2, 3, 4]"
  by (simp add: To4_def v4InV6Prefix_def)

text \<open>The hub that \<open>ParseBootstrapHub\<close> returns for the scenario string with a
  fragment the decoder accepts.\<close>

lemma ParseBootstrapHub_scenario:
  assumes "frag \<noteq> ''''" and "FromBase58 env frag = Inr h"
  shows "ParseBootstrapHub env (''tcp://1.2.3.4:17/#'' @ frag) m =
         Inr \<lparr> Hub.ID = frag, Map = m,
               Info = \<lparr> Announcement.ID = frag, Transports = [''tcp://:17''],
                        IPv4 = Some [1, 2, 3, 4], IPv6 = None \<rparr>,
               Status = () \<rparr>"
  unfolding ParseBootstrapHub_def ParseTransport_scenario
  using assms by (simp add: ParseIP_1_2_3_4 To4_1_2_3_4 Transport_String_tcp_17)

text \<open>
  C8, as the spec states it, fails in one part: the hub's ID is not the decoded hash.
  \<open>ParseBootstrapHub\<close> decodes the fragment only to test it, drops the result and
  stores the fragment text. With a decoder that gives the hash \<open>de ad\<close> and with one
  that gives \<open>be ef\<close> the hub returned for the scenario string is the same, and its ID
  is the fragment.
\<close>

theorem ParseBootstrapHub_ID_is_fragment:
  "FromBase58 (example_hub_env [0xde, 0xad]) example_hub_id = Inr (LabeledHash [0xde, 0xad])
 \<and> FromBase58 (example_hub_env [0xbe, 0xef]) example_hub_id = Inr (LabeledHash [0xbe, 0xef])
 \<and> LabeledHash [0xde, 0xad] \<noteq> LabeledHash [0xbe, 0xef]
 \<and> ParseBootstrapHub (example_hub_env [0xde, 0xad]) (''tcp://1.2.3.4:17/#'' @ example_hub_id) ''main''
     = ParseBootstrapHub (example_hub_env [0xbe, 0xef]) (''tcp://1.2.3.4:17/#'' @ example_hub_id) ''main''
 \<and> ParseBootstrapHub (example_hub_env [0xde, 0xad]) (''tcp://1.2.3.4:17/#'' @ example_hub_id) ''main''
     = Inr \<lparr> Hub.ID = example_hub_id, Map = ''main'',
             Info = \<lparr> Announcement.ID = example_hub_id, Transports = [''tcp://:17''],
                      IPv4 = Some [1, 2, 3, 4], IPv6 = None \<rparr>,
             Status = () \<rparr>
 \<and> LabeledHash (map of_char example_hub_id) \<noteq> LabeledHash [0xde, 0xad]"
proof -
  have ne: "example_hub_id \<noteq> ''''"
    by (simp add: example_hub_id_def)
  have fb: "FromBase58 (example_hub_env d) example_hub_id = Inr (LabeledHash d)" for d
    using ne by (simp add: example_hub_env_def)
  have differ: "LabeledHash (map of_char example_hub_id) \<noteq> LabeledHash [0xde, 0xad]"
    by (simp add: example_hub_id_def)
  from ParseBootstrapHub_scenario [OF ne fb, of "[0xde, 0xad]" "''main''"]
       ParseBootstrapHub_scenario [OF ne fb, of "[0xbe, 0xef]" "''main''"] fb differ
  show ?thesis by simp
qed

text \<open>
  C8, amended. For every bootstrap string \<open>tcp://1.2.3.4:17/#<base58id>\<close> whose
  fragment is a valid base58 labeled hash, \<open>ParseBootstrapHub\<close> returns a hub whose ID
  is the fragment itself, the base58 text of the hub ID, whose \<open>Info.IPv4\<close> is
  \<open>1.2.3.4\<close> and whose \<open>Info.Transports\<close> is the single transport \<open>tcp://:17\<close>, with no
  host and no fragment. It returns an error when the fragment is missing, when the
  fragment is not a valid base58 labeled hash, and when the host is not an IP address.
\<close>

theorem ParseBootstrapHub_spec:
  "(\<forall>h. frag \<noteq> '''' \<and> FromBase58 env frag = Inr h \<longrightarrow>
       ParseBootstrapHub env (''tcp://1.2.3.4:17/#'' @ frag) m =
         Inr \<lparr> Hub.ID = frag, Map = m,
               Info = \<lparr> Announcement.ID = frag, Transports = [''tcp://:17''],
                        IPv4 = Some [1, 2, 3, 4], IPv6 = None \<rparr>,
               Status = () \<rparr>)
 \<and> ParseBootstrapHub env ''tcp://1.2.3.4:17/'' m = Inl MissingHubID
 \<and> ParseBootstrapHub env ''tcp://1.2.3.4:17/#'' m = Inl MissingHubID
 \<and> (\<forall>err. frag \<noteq> '''' \<and> FromBase58 env frag = Inl err \<longrightarrow>
       ParseBootstrapHub env (''tcp://1.2.3.4:17/#'' @ frag) m = Inl (HubIDInvalid err))
 \<and> (\<forall>h. frag \<noteq> '''' \<and> FromBase58 env frag = Inr h \<longrightarrow>
       ParseBootstrapHub env (''tcp://example.org:17/#'' @ frag) m = Inl InvalidIPAddress)
 \<and> (\<forall>t. ParseTransport env s = Inr t \<longrightarrow>
       (Option t = '''' \<longrightarrow> ParseBootstrapHub env s m = Inl MissingHubID)
     \<and> (\<forall>err. Option t \<noteq> '''' \<and> FromBase58 env (Option t) = Inl err \<longrightarrow>
           ParseBootstrapHub env s m = Inl (HubIDInvalid err))
     \<and> (ParseIP env (Domain t) = None \<longrightarrow> isl (ParseBootstrapHub env s m))
     \<and> (\<forall>h ip ip4. Option t \<noteq> '''' \<and> FromBase58 env (Option t) = Inr h
           \<and> ParseIP env (Domain t) = Some ip \<and> To4 ip = Some ip4 \<longrightarrow>
           ParseBootstrapHub env s m =
             Inr \<lparr> Hub.ID = Option t, Map = m,
                   Info = \<lparr> Announcement.ID = Option t,
                            Transports = [Transport_String (t\<lparr>Domain := '''', Option := ''''\<rparr>)],
                            IPv4 = Some ip4, IPv6 = None \<rparr>,
                   Status = () \<rparr>))"
proof -
  have a: "ParseBootstrapHub env (''tcp://1.2.3.4:17/#'' @ frag) m =
         Inr \<lparr> Hub.ID = frag, Map = m,
               Info = \<lparr> Announcement.ID = frag, Transports = [''tcp://:17''],
                        IPv4 = Some [1, 2, 3, 4], IPv6 = None \<rparr>,
               Status = () \<rparr>"
    if "frag \<noteq> ''''" "FromBase58 env frag = Inr h" for h
    using that by (rule ParseBootstrapHub_scenario)
  have b: "ParseBootstrapHub env ''tcp://1.2.3.4:17/'' m = Inl MissingHubID"
    unfolding ParseBootstrapHub_def ParseTransport_no_fragment by simp
  have b': "ParseBootstrapHub env ''tcp://1.2.3.4:17/#'' m = Inl MissingHubID"
    using ParseTransport_scenario [of env "''''"] by (simp add: ParseBootstrapHub_def)
  have c: "ParseBootstrapHub env (''tcp://1.2.3.4:17/#'' @ frag) m = Inl (HubIDInvalid err)"
    if "frag \<noteq> ''''" "FromBase58 env frag = Inl err" for err
    unfolding ParseBootstrapHub_def ParseTransport_scenario
    using that by simp
  have d: "ParseBootstrapHub env (''tcp://example.org:17/#'' @ frag) m = Inl InvalidIPAddress"
    if "frag \<noteq> ''''" "FromBase58 env frag = Inr h" for h
    unfolding ParseBootstrapHub_def ParseTransport_domain
    using that by (simp add: ParseIP_domain)
  have e: "\<forall>t. ParseTransport env s = Inr t \<longrightarrow>
       (Option t = '''' \<longrightarrow> ParseBootstrapHub env s m = Inl MissingHubID)
     \<and> (\<forall>err. Option t \<noteq> '''' \<and> FromBase58 env (Option t) = Inl err \<longrightarrow>
           ParseBootstrapHub env s m = Inl (HubIDInvalid err))
     \<and> (ParseIP env (Domain t) = None \<longrightarrow> isl (ParseBootstrapHub env s m))
     \<and> (\<forall>h ip ip4. Option t \<noteq> '''' \<and> FromBase58 env (Option t) = Inr h
           \<and> ParseIP env (Domain t) = Some ip \<and> To4 ip = Some ip4 \<longrightarrow>
           ParseBootstrapHub env s m =
             Inr \<lparr> Hub.ID = Option t, Map = m,
                   Info = \<lparr> Announcement.ID = Option t,
                            Transports = [Transport_String (t\<lparr>Domain := '''', Option := ''''\<rparr>)],
                            IPv4 = Some ip4, IPv6 = None \<rparr>,
                   Status = () \<rparr>)"
    by (auto simp: ParseBootstrapHub_def Let_def split: sum.splits option.splits)
  from a b b' c d e show ?thesis by blast
qed

theorem ParseBootstrapHub_spec_witness:
  "example_hub_id \<noteq> ''''
 \<and> FromBase58 (example_hub_env [0xde, 0xad]) example_hub_id = Inr (LabeledHash [0xde, 0xad])
 \<and> ParseBootstrapHub (example_hub_env [0xde, 0xad]) (''tcp://1.2.3.4:17/#'' @ example_hub_id) ''main''
     = Inr \<lparr> Hub.ID = example_hub_id, Map = ''main'',
             Info = \<lparr> Announcement.ID = example_hub_id, Transports = [''tcp://:17''],
                      IPv4 = Some [1, 2, 3, 4], IPv6 = None \<rparr>,
             Status = () \<rparr>
 \<and> ParseBootstrapHub (example_hub_env [0xde, 0xad]) ''tcp://1.2.3.4:17/'' ''main'' = Inl MissingHubID
 \<and> ParseBootstrapHub (example_hub_env [0xde, 0xad]) (''tcp://example.org:17/#'' @ example_hub_id) ''main''
     = Inl InvalidIPAddress"
proof -
  have ne: "example_hub_id \<noteq> ''''"
    by (simp add: example_hub_id_def)
  have fb: "FromBase58 (example_hub_env [0xde, 0xad]) example_hub_id = Inr (LabeledHash [0xde, 0xad])"
    using ne by (simp add: example_hub_env_def)
  from ParseBootstrapHub_spec [of example_hub_id "example_hub_env [0xde, 0xad]" "''main''"] ne fb
  show ?thesis by simp
qed

end
